theory Spec2Isabelle
  imports Main
begin

section \<open>RecaptchaSolver: a shallow embedding of \<^verbatim>\<open>src/RecaptchaSolver.py\<close>\<close>

text \<open>
  The solver is sequencing logic over two external collaborators: the page automation
  (Playwright's \<^verbatim>\<open>Page\<close>, \<^verbatim>\<open>Frame\<close> and \<^verbatim>\<open>ElementHandle\<close>) and the
  transcription tool chain (urllib, pydub, speech_recognition, the file system). The
  embedding keeps every call to a collaborator as an \<^emph>\<open>action\<close> appended to a trace, and
  takes the collaborator's answer from an environment that may answer differently at every
  point of the history. Python exceptions are values of type \<open>exn\<close>; a program either
  raises (\<open>Inl\<close>) or returns (\<open>Inr\<close>).
\<close>

subsection \<open>The selector table\<close>

text \<open>
  \<^verbatim>\<open>get_selector\<close> builds a dict literal and calls \<^verbatim>\<open>selectors.get(selector, "")\<close>.
  The literal is kept as an association list in the order of the source.
\<close>

definition selectors :: "(string \<times> string) list" where
  "selectors =
    [(''checkbox'', ''.rc-anchor-content''),
     (''audio_challenge'', ''#recaptcha-audio-button''),
     (''audio_response'', ''#audio-response''),
     (''verify_button'', ''#recaptcha-verify-button''),
     (''token'', ''#recaptcha-token''),
     (''iframe'', ''iframe[title='' @ [CHR 0x27] @ ''reCAPTCHA'' @ [CHR 0x27] @ '']''),
     (''challenge_frame'',
        ''iframe[title*='' @ [CHR 0x27] @ ''recaptcha challenge'' @ [CHR 0x27] @ '']''),
     (''checkmark'', ''.recaptcha-checkbox-checkmark''),
     (''error_message'', ''text='' @ [CHR 0x27] @ ''Try again later'' @ [CHR 0x27]),
     (''audio_source'', ''#audio-source'')]"

definition get_selector :: "string \<Rightarrow> string" where
  "get_selector selector =
    (case map_of selectors selector of None \<Rightarrow> '''' | Some v \<Rightarrow> v)"

text \<open>The three timeout constants of the class, in milliseconds.\<close>

definition TIMEOUT_STANDARD :: nat where "TIMEOUT_STANDARD = 7000"
definition TIMEOUT_SHORT :: nat where "TIMEOUT_SHORT = 1000"
definition TIMEOUT_DETECTION :: nat where "TIMEOUT_DETECTION = 50"

subsection \<open>Exceptions, actions and the environment\<close>

text \<open>
  An exception carries its class, as far as a handler of the source tells classes apart
  (\<^verbatim>\<open>except OSError\<close> in the clean-up, \<^verbatim>\<open>except Exception\<close> elsewhere), and the text
  that \<^verbatim>\<open>str(e)\<close> gives. Every exception of the model is an instance of Python's
  \<^verbatim>\<open>Exception\<close>: \<open>PlainException\<close> is \<^verbatim>\<open>Exception\<close> itself, which is what the solver
  raises; \<open>OSError\<close> stands for \<^verbatim>\<open>OSError\<close> and its subclasses; \<open>OtherException\<close> for
  every other subclass (Playwright's \<^verbatim>\<open>TimeoutError\<close> and \<^verbatim>\<open>Error\<close>, the recogniser's
  \<^verbatim>\<open>UnknownValueError\<close>, ...). Exceptions outside \<^verbatim>\<open>Exception\<close> (a keyboard interrupt, a
  cancelled task) are not modelled.
\<close>

datatype exn_class = PlainException | OSError | OtherException

datatype exn = Exn (cls: exn_class) (str: string)

type_synonym handle = nat

type_synonym frame = nat

text \<open>
  One constructor for each call the source makes to a collaborator, with the arguments
  the source passes. A timeout is \<open>None\<close> when the call passes no \<^verbatim>\<open>timeout=\<close>
  argument; the last argument of \<open>FrameWaitForSelector\<close> is the \<^verbatim>\<open>state=\<close> argument.
\<close>

datatype action =
    PageWaitForSelector string "nat option"
  | FrameWaitForSelector frame string "nat option" "string option"
  | FrameQuerySelector frame string
  | ContentFrame handle
  | FrameClick frame string
  | FrameFill frame string string
  | PageWaitForTimeout nat
  | GetAttribute handle string
  | IsVisible handle
  | Randrange nat nat
  | Urlretrieve string string
  | FromMp3 string
  | Export string string
  | NewRecognizer
  | AudioFileEnter string
  | Record
  | AudioFileExit
  | RecognizeGoogle
  | PathExists string
  | OsRemove string

text \<open>
  The environment answers a call from the whole history of calls, the call itself last.
  There is one answer function for each result type; \<^verbatim>\<open>os.path.exists\<close> and
  \<^verbatim>\<open>random.randrange\<close> do not raise.
\<close>

record env =
  elem_result :: "action list \<Rightarrow> exn + handle option"
  frame_result :: "action list \<Rightarrow> exn + frame option"
  unit_result :: "action list \<Rightarrow> exn + unit"
  attr_result :: "action list \<Rightarrow> exn + string option"
  bool_result :: "action list \<Rightarrow> exn + bool"
  text_result :: "action list \<Rightarrow> exn + string"
  exists_result :: "action list \<Rightarrow> bool"
  rand_result :: "action list \<Rightarrow> nat"

subsection \<open>Programs: a trace of actions, and a result or an exception\<close>

type_synonym 'a prog = "action list \<Rightarrow> (exn + 'a) \<times> action list"

definition ret :: "'a \<Rightarrow> 'a prog" where
  "ret x = (\<lambda>tr. (Inr x, tr))"

definition raise :: "exn \<Rightarrow> 'a prog" where
  "raise e = (\<lambda>tr. (Inl e, tr))"

definition seq :: "'a prog \<Rightarrow> ('a \<Rightarrow> 'b prog) \<Rightarrow> 'b prog" where
  "seq m k = (\<lambda>tr. case m tr of (Inl e, tr') \<Rightarrow> (Inl e, tr') | (Inr x, tr') \<Rightarrow> k x tr')"

text \<open>
  \<^verbatim>\<open>try: m except C as e: h e\<close>, where \<open>catches\<close> tells whether \<open>e\<close> is an instance of
  \<^verbatim>\<open>C\<close>.
\<close>

definition try_except :: "(exn \<Rightarrow> bool) \<Rightarrow> 'a prog \<Rightarrow> (exn \<Rightarrow> 'a prog) \<Rightarrow> 'a prog" where
  "try_except catches m h =
    (\<lambda>tr. case m tr of
       (Inl e, tr') \<Rightarrow> if catches e then h e tr' else (Inl e, tr')
     | (Inr x, tr') \<Rightarrow> (Inr x, tr'))"

text \<open>
  \<^verbatim>\<open>try: m finally: fin\<close>. The clean-up runs on every outcome of \<open>m\<close>; an exception of
  the clean-up replaces the outcome of \<open>m\<close>. A \<^verbatim>\<open>with\<close> block whose \<^verbatim>\<open>__exit__\<close> does not
  swallow exceptions has the same shape.
\<close>

definition try_finally :: "'a prog \<Rightarrow> unit prog \<Rightarrow> 'a prog" where
  "try_finally m fin =
    (\<lambda>tr. case m tr of
       (r, tr') \<Rightarrow> (case fin tr' of (Inl e, tr'') \<Rightarrow> (Inl e, tr'') | (Inr u, tr'') \<Rightarrow> (r, tr'')))"

definition is_Exception :: "exn \<Rightarrow> bool" where
  "is_Exception e = True"

definition is_OSError :: "exn \<Rightarrow> bool" where
  "is_OSError e = (cls e = OSError)"

definition ask_elem :: "env \<Rightarrow> action \<Rightarrow> handle option prog" where
  "ask_elem env a = (\<lambda>tr. (elem_result env (tr @ [a]), tr @ [a]))"

definition ask_frame :: "env \<Rightarrow> action \<Rightarrow> frame option prog" where
  "ask_frame env a = (\<lambda>tr. (frame_result env (tr @ [a]), tr @ [a]))"

definition ask_unit :: "env \<Rightarrow> action \<Rightarrow> unit prog" where
  "ask_unit env a = (\<lambda>tr. (unit_result env (tr @ [a]), tr @ [a]))"

definition ask_attr :: "env \<Rightarrow> action \<Rightarrow> string option prog" where
  "ask_attr env a = (\<lambda>tr. (attr_result env (tr @ [a]), tr @ [a]))"

definition ask_bool :: "env \<Rightarrow> action \<Rightarrow> bool prog" where
  "ask_bool env a = (\<lambda>tr. (bool_result env (tr @ [a]), tr @ [a]))"

definition ask_text :: "env \<Rightarrow> action \<Rightarrow> string prog" where
  "ask_text env a = (\<lambda>tr. (text_result env (tr @ [a]), tr @ [a]))"

definition ask_exists :: "env \<Rightarrow> action \<Rightarrow> bool prog" where
  "ask_exists env a = (\<lambda>tr. (Inr (exists_result env (tr @ [a])), tr @ [a]))"

text \<open>\<^verbatim>\<open>random.randrange(lo, hi)\<close> returns a number \<open>n\<close> with \<open>lo \<le> n < hi\<close>.\<close>

definition randrange :: "env \<Rightarrow> nat \<Rightarrow> nat \<Rightarrow> nat prog" where
  "randrange env lo hi =
    (\<lambda>tr. (Inr (lo + rand_result env (tr @ [Randrange lo hi]) mod (hi - lo)),
            tr @ [Randrange lo hi]))"

subsection \<open>The status checks\<close>

text \<open>
  \<^verbatim>\<open>is_solved\<close> (lines 140 to 154). An element handle and a frame are objects, so
  \<^verbatim>\<open>if not iframe\<close> holds for \<^verbatim>\<open>None\<close> only. The last line is
  \<^verbatim>\<open>checkmark is not None and await checkmark.get_attribute("style") is not None\<close>: the
  attribute is read only when the checkmark is there, and is tested against \<^verbatim>\<open>None\<close>.
\<close>

definition is_solved :: "env \<Rightarrow> bool prog" where
  "is_solved env =
    try_except is_Exception
     (seq (ask_elem env (PageWaitForSelector (get_selector ''iframe'') (Some TIMEOUT_SHORT)))
      (\<lambda>iframe. case iframe of
         None \<Rightarrow> ret False
       | Some ih \<Rightarrow>
           seq (ask_frame env (ContentFrame ih))
           (\<lambda>frame. case frame of
              None \<Rightarrow> ret False
            | Some f \<Rightarrow>
                seq (ask_elem env
                      (FrameWaitForSelector f (get_selector ''checkmark'') (Some TIMEOUT_SHORT) None))
                (\<lambda>checkmark. case checkmark of
                   None \<Rightarrow> ret False
                 | Some c \<Rightarrow>
                     seq (ask_attr env (GetAttribute c ''style''))
                     (\<lambda>style. ret (style \<noteq> None))))))
     (\<lambda>e. ret False)"

text \<open>\<^verbatim>\<open>is_detected\<close> (lines 156 to 170).\<close>

definition is_detected :: "env \<Rightarrow> bool prog" where
  "is_detected env =
    try_except is_Exception
     (seq (ask_elem env
            (PageWaitForSelector (get_selector ''challenge_frame'') (Some TIMEOUT_DETECTION)))
      (\<lambda>challenge_frame. case challenge_frame of
         None \<Rightarrow> ret False
       | Some ch \<Rightarrow>
           seq (ask_frame env (ContentFrame ch))
           (\<lambda>frame. case frame of
              None \<Rightarrow> ret False
            | Some f \<Rightarrow>
                seq (ask_elem env (FrameQuerySelector f (get_selector ''error_message'')))
                (\<lambda>error_message. case error_message of
                   None \<Rightarrow> ret False
                 | Some m \<Rightarrow> ask_bool env (IsVisible m)))))
     (\<lambda>e. ret False)"

text \<open>
  \<^verbatim>\<open>get_token\<close> (lines 172 to 186); the result is \<^verbatim>\<open>Optional[str]\<close>. Neither wait
  passes a \<^verbatim>\<open>timeout=\<close> argument.
\<close>

definition get_token :: "env \<Rightarrow> string option prog" where
  "get_token env =
    try_except is_Exception
     (seq (ask_elem env (PageWaitForSelector (get_selector ''challenge_frame'') None))
      (\<lambda>challenge_frame. case challenge_frame of
         None \<Rightarrow> ret None
       | Some ch \<Rightarrow>
           seq (ask_frame env (ContentFrame ch))
           (\<lambda>frame. case frame of
              None \<Rightarrow> ret None
            | Some f \<Rightarrow>
                seq (ask_elem env (FrameWaitForSelector f (get_selector ''token'') None None))
                (\<lambda>token_element. case token_element of
                   None \<Rightarrow> ret None
                 | Some t \<Rightarrow> ask_attr env (GetAttribute t ''value'')))))
     (\<lambda>e. ret None)"

subsection \<open>The transcription step\<close>

text \<open>
  The temporary paths are \<^verbatim>\<open>os.path.join(TEMP_DIR, f"{n}.mp3")\<close> and the same with
  \<^verbatim>\<open>.wav\<close>. The model takes the branch of \<^verbatim>\<open>TEMP_DIR\<close> for a system that is not
  Windows, where the directory is \<^verbatim>\<open>/tmp\<close> and the separator is a slash.
\<close>

definition TEMP_DIR :: string where
  "TEMP_DIR = ''/tmp''"

definition path_join :: "string \<Rightarrow> string \<Rightarrow> string" where
  "path_join dir name = dir @ ''/'' @ name"

text \<open>The decimal digits of \<^verbatim>\<open>f"{n}"\<close>; \<open>digit_char\<close> is applied below 10 only.\<close>

definition digit_char :: "nat \<Rightarrow> char" where
  "digit_char d = ''0123456789'' ! d"

function format_nat :: "nat \<Rightarrow> string" where
  "format_nat n = (if n < 10 then [digit_char n] else format_nat (n div 10) @ [digit_char (n mod 10)])"
  by pat_completeness auto
termination
  by (relation "measure (\<lambda>n. n)") auto

declare format_nat.simps [simp del]

text \<open>
  The \<^verbatim>\<open>finally\<close> block: for each path, in order, \<^verbatim>\<open>os.remove\<close> it when it exists,
  passing over an \<^verbatim>\<open>OSError\<close>.
\<close>

fun remove_paths :: "env \<Rightarrow> string list \<Rightarrow> unit prog" where
  "remove_paths env [] = ret ()"
| "remove_paths env (path # paths) =
    seq (ask_exists env (PathExists path))
    (\<lambda>there.
      seq (if there
           then try_except is_OSError (ask_unit env (OsRemove path)) (\<lambda>e. ret ())
           else ret ())
      (\<lambda>u. remove_paths env paths))"

text \<open>
  The body of the \<^verbatim>\<open>try\<close> of \<^verbatim>\<open>_process_audio_challenge\<close> (lines 122 to 130): download,
  decode, export as wav, record the wav file inside a \<^verbatim>\<open>with\<close> block, recognise. The
  objects handed from one call to the next (the sound, the recogniser, the audio data)
  are not looked into by the solver, so the calls return nothing in the model and the
  recognised text is the environment's answer to the last call.
\<close>

definition transcribe :: "env \<Rightarrow> string \<Rightarrow> string \<Rightarrow> string \<Rightarrow> string prog" where
  "transcribe env audio_url mp3_path wav_path =
    seq (ask_unit env (Urlretrieve audio_url mp3_path))
    (\<lambda>u. seq (ask_unit env (FromMp3 mp3_path))
    (\<lambda>sound. seq (ask_unit env (Export wav_path ''wav''))
    (\<lambda>u. seq (ask_unit env NewRecognizer)
    (\<lambda>recognizer. seq (seq (ask_unit env (AudioFileEnter wav_path))
                        (\<lambda>source. try_finally (ask_unit env Record) (ask_unit env AudioFileExit)))
    (\<lambda>audio. ask_text env RecognizeGoogle)))))"

text \<open>\<^verbatim>\<open>_process_audio_challenge\<close> (lines 109 to 138).\<close>

definition process_audio_challenge :: "env \<Rightarrow> string \<Rightarrow> string prog" where
  "process_audio_challenge env audio_url =
    seq (randrange env 1 1000)
    (\<lambda>n1. seq (randrange env 1 1000)
    (\<lambda>n2.
      let mp3_path = path_join TEMP_DIR (format_nat n1 @ ''.mp3'');
          wav_path = path_join TEMP_DIR (format_nat n2 @ ''.wav'')
      in try_finally (transcribe env audio_url mp3_path wav_path)
                     (remove_paths env [mp3_path, wav_path])))"

subsection \<open>solveCaptcha\<close>

text \<open>
  \<^verbatim>\<open>str.lower\<close> on a text whose characters are below code point 256, which is what
  \<open>char\<close> holds: the letters \<^verbatim>\<open>A\<close> to \<^verbatim>\<open>Z\<close> and the upper-case letters of Latin-1
  (code points 192 to 222 without the multiplication sign 215) move up by 32.
\<close>

definition lower_char :: "char \<Rightarrow> char" where
  "lower_char c =
    (let n = (of_char c :: int)
     in if (65 \<le> n \<and> n \<le> 90) \<or> (192 \<le> n \<and> n \<le> 222 \<and> n \<noteq> 215)
        then char_of (n + 32) else c)"

definition lower :: "string \<Rightarrow> string" where
  "lower s = map lower_char s"

text \<open>
  The function is given in the sections that its comments mark. Lines 50 to 61: find
  the widget frame, enter it, wait for the checkbox and click it.
\<close>

definition click_checkbox :: "env \<Rightarrow> unit prog" where
  "click_checkbox env =
    seq (ask_elem env (PageWaitForSelector (get_selector ''iframe'') (Some TIMEOUT_STANDARD)))
    (\<lambda>iframe_handle. case iframe_handle of
       None \<Rightarrow> raise (Exn PlainException ''Cannot find reCAPTCHA iframe'')
     | Some ih \<Rightarrow>
         seq (ask_frame env (ContentFrame ih))
         (\<lambda>frame. case frame of
            None \<Rightarrow> raise (Exn PlainException ''Cannot access iframe content'')
          | Some f \<Rightarrow>
              seq (ask_elem env
                    (FrameWaitForSelector f (get_selector ''checkbox'') (Some TIMEOUT_STANDARD) None))
              (\<lambda>h. ask_unit env (FrameClick f (get_selector ''checkbox'')))))"

text \<open>
  Lines 68 to 80: find the challenge frame, enter it, wait for the audio button, click
  it and pause for 300 ms. The result is the challenge frame's content.
\<close>

definition click_audio_button :: "env \<Rightarrow> frame prog" where
  "click_audio_button env =
    seq (ask_elem env
          (PageWaitForSelector (get_selector ''challenge_frame'') (Some TIMEOUT_STANDARD)))
    (\<lambda>challenge_frame. case challenge_frame of
       None \<Rightarrow> raise (Exn PlainException ''Cannot find challenge iframe'')
     | Some ch \<Rightarrow>
         seq (ask_frame env (ContentFrame ch))
         (\<lambda>frame. case frame of
            None \<Rightarrow> raise (Exn PlainException ''Cannot access challenge iframe'')
          | Some f \<Rightarrow>
              seq (ask_elem env
                    (FrameWaitForSelector f (get_selector ''audio_challenge'')
                       (Some TIMEOUT_STANDARD) None))
              (\<lambda>h. seq (ask_unit env (FrameClick f (get_selector ''audio_challenge'')))
              (\<lambda>u. seq (ask_unit env (PageWaitForTimeout 300))
              (\<lambda>u. ret f)))))"

text \<open>
  The body of the \<^verbatim>\<open>try\<close>, lines 87 to 104. \<^verbatim>\<open>if not audio_source\<close> holds for
  \<^verbatim>\<open>None\<close> and for the empty string.
\<close>

definition audio_challenge :: "env \<Rightarrow> frame \<Rightarrow> unit prog" where
  "audio_challenge env frame =
    seq (ask_elem env
          (FrameWaitForSelector frame (get_selector ''audio_source'')
             (Some TIMEOUT_STANDARD) (Some ''attached'')))
    (\<lambda>audio_element. case audio_element of
       None \<Rightarrow> raise (Exn PlainException ''Cannot find audio source element'')
     | Some ae \<Rightarrow>
         seq (ask_attr env (GetAttribute ae ''src''))
         (\<lambda>audio_source. case audio_source of
            None \<Rightarrow> raise (Exn PlainException ''Audio source URL not found'')
          | Some url \<Rightarrow>
              if url = [] then raise (Exn PlainException ''Audio source URL not found'')
              else
                seq (process_audio_challenge env url)
                (\<lambda>text_response.
                   seq (ask_unit env
                         (FrameFill frame (get_selector ''audio_response'') (lower text_response)))
                (\<lambda>u. seq (ask_unit env (FrameClick frame (get_selector ''verify_button'')))
                (\<lambda>u. seq (ask_unit env (PageWaitForTimeout 400))
                (\<lambda>u. seq (is_solved env)
                (\<lambda>solved.
                   if \<not> solved then raise (Exn PlainException ''Failed to solve the captcha'')
                   else ret ())))))))"

text \<open>
  \<^verbatim>\<open>solveCaptcha\<close> (lines 43 to 107): the sections in order, with the two status checks
  between them and the handler \<^verbatim>\<open>except Exception as e\<close> around the last one.
\<close>

definition solveCaptcha :: "env \<Rightarrow> unit prog" where
  "solveCaptcha env =
    seq (click_checkbox env)
    (\<lambda>u. seq (is_solved env)
    (\<lambda>solved.
       if solved then ret ()
       else
         seq (click_audio_button env)
         (\<lambda>frame. seq (is_detected env)
         (\<lambda>detected.
            if detected then raise (Exn PlainException ''Captcha detected bot behavior'')
            else
              try_except is_Exception (audio_challenge env frame)
                (\<lambda>e. raise (Exn PlainException (''Audio challenge failed: '' @ str e)))))))"

subsection \<open>Reading a trace\<close>

text \<open>
  The element waits are the two \<^verbatim>\<open>wait_for_selector\<close> calls; \<open>wait_timeout\<close> is the
  \<^verbatim>\<open>timeout=\<close> argument of one. The fixed pauses (\<^verbatim>\<open>wait_for_timeout\<close>) and the
  non-waiting \<^verbatim>\<open>query_selector\<close> are not element waits.
\<close>

fun is_wait :: "action \<Rightarrow> bool" where
  "is_wait (PageWaitForSelector sel t) = True"
| "is_wait (FrameWaitForSelector f sel t st) = True"
| "is_wait a = False"

fun wait_timeout :: "action \<Rightarrow> nat option" where
  "wait_timeout (PageWaitForSelector sel t) = t"
| "wait_timeout (FrameWaitForSelector f sel t st) = t"
| "wait_timeout a = None"

text \<open>The selector an action looks up, clicks or fills, when it has one.\<close>

fun selector_of :: "action \<Rightarrow> string option" where
  "selector_of (PageWaitForSelector sel t) = Some sel"
| "selector_of (FrameWaitForSelector f sel t st) = Some sel"
| "selector_of (FrameQuerySelector f sel) = Some sel"
| "selector_of (FrameClick f sel) = Some sel"
| "selector_of (FrameFill f sel v) = Some sel"
| "selector_of a = None"

text \<open>The calls that \<^verbatim>\<open>_process_audio_challenge\<close> makes: the actions of the transcription step.\<close>

fun is_transcription :: "action \<Rightarrow> bool" where
  "is_transcription (Randrange lo hi) = True"
| "is_transcription (Urlretrieve url path) = True"
| "is_transcription (FromMp3 path) = True"
| "is_transcription (Export path fmt) = True"
| "is_transcription NewRecognizer = True"
| "is_transcription (AudioFileEnter path) = True"
| "is_transcription Record = True"
| "is_transcription AudioFileExit = True"
| "is_transcription RecognizeGoogle = True"
| "is_transcription (PathExists path) = True"
| "is_transcription (OsRemove path) = True"
| "is_transcription a = False"

text \<open>
  \<open>emits P m\<close>: whatever the outcome, \<open>m\<close> only appends to the trace, and every action
  it appends satisfies \<open>P\<close>.
\<close>

definition emits :: "(action \<Rightarrow> bool) \<Rightarrow> 'a prog \<Rightarrow> bool" where
  "emits P m = (\<forall>tr. \<exists>new. snd (m tr) = tr @ new \<and> list_all P new)"

subsection \<open>Pages to run the solver on\<close>

text \<open>
  A page on which every element and frame is found at once (element 1, frame 2), with
  the attribute reads, the visibility of the error message, the recogniser's answer and
  the answers of the calls that return nothing left open. Every path exists, and the
  random numbers make both temporary files number 7.
\<close>

definition page ::
  "(action list \<Rightarrow> exn + string option) \<Rightarrow> (exn + bool) \<Rightarrow> (exn + string) \<Rightarrow>
   (action list \<Rightarrow> exn + unit) \<Rightarrow> env" where
  "page attrs visible heard units =
    \<lparr>elem_result = (\<lambda>tr. Inr (Some 1)),
     frame_result = (\<lambda>tr. Inr (Some 2)),
     unit_result = units,
     attr_result = attrs,
     bool_result = (\<lambda>tr. visible),
     text_result = (\<lambda>tr. heard),
     exists_result = (\<lambda>tr. True),
     rand_result = (\<lambda>tr. 6)\<rparr>"

text \<open>The checkmark carries a \<^verbatim>\<open>style\<close> attribute from the start, and it is empty.\<close>

definition page_empty_style :: env where
  "page_empty_style =
    page (\<lambda>tr. Inr (Some '''')) (Inr False) (Inr ''FireBall'') (\<lambda>tr. Inr ())"

text \<open>The checkmark never has a \<^verbatim>\<open>style\<close> attribute, and the error message is visible.\<close>

definition page_detected :: env where
  "page_detected = page (\<lambda>tr. Inr None) (Inr True) (Inr ''FireBall'') (\<lambda>tr. Inr ())"

text \<open>
  The audio challenge: the \<^verbatim>\<open>src\<close> attribute is a URL, and the checkmark has its
  \<^verbatim>\<open>style\<close> attribute once the pause that follows the verify click has been made.
\<close>

fun reads_attribute :: "string \<Rightarrow> action \<Rightarrow> bool" where
  "reads_attribute name (GetAttribute h n) = (n = name)"
| "reads_attribute name a = False"

definition audio_attrs :: "action list \<Rightarrow> exn + string option" where
  "audio_attrs tr =
    (if tr \<noteq> [] \<and> reads_attribute ''src'' (last tr) then Inr (Some ''https://audio.test/clip.mp3'')
     else if PageWaitForTimeout 400 \<in> set tr then Inr (Some ''width: 100%'')
     else Inr None)"

definition page_audio :: env where
  "page_audio = page audio_attrs (Inr False) (Inr ''FireBall'') (\<lambda>tr. Inr ())"

text \<open>
  The same page when the remote recognition fails and the files cannot be removed:
  every \<^verbatim>\<open>os.remove\<close> raises an \<^verbatim>\<open>OSError\<close>.
\<close>

fun is_remove :: "action \<Rightarrow> bool" where
  "is_remove (OsRemove path) = True"
| "is_remove a = False"

definition stuck_files :: "action list \<Rightarrow> exn + unit" where
  "stuck_files tr =
    (if tr \<noteq> [] \<and> is_remove (last tr) then Inl (Exn OSError ''Permission denied'')
     else Inr ())"

definition page_no_recognition :: env where
  "page_no_recognition =
    page audio_attrs (Inr False) (Inl (Exn OtherException ''recognition request failed''))
      stuck_files"

text \<open>A page on which no element appears: every lookup runs into its timeout.\<close>

definition page_timeout :: env where
  "page_timeout =
    page_detected\<lparr>elem_result := (\<lambda>tr. Inl (Exn OtherException ''Timeout exceeded''))\<rparr>"

subsection \<open>Names for the calls of the solver\<close>

text \<open>The actions that the theorems below speak about, as the source issues them.\<close>

abbreviation wait_widget :: "nat \<Rightarrow> action" where
  "wait_widget t \<equiv> PageWaitForSelector (get_selector ''iframe'') (Some t)"

abbreviation wait_checkmark :: "frame \<Rightarrow> action" where
  "wait_checkmark f \<equiv>
    FrameWaitForSelector f (get_selector ''checkmark'') (Some TIMEOUT_SHORT) None"

abbreviation read_style :: "handle \<Rightarrow> action" where
  "read_style c \<equiv> GetAttribute c ''style''"

abbreviation wait_challenge :: "nat option \<Rightarrow> action" where
  "wait_challenge t \<equiv> PageWaitForSelector (get_selector ''challenge_frame'') t"

abbreviation query_error :: "frame \<Rightarrow> action" where
  "query_error f \<equiv> FrameQuerySelector f (get_selector ''error_message'')"

abbreviation wait_audio_source :: "frame \<Rightarrow> action" where
  "wait_audio_source f \<equiv>
    FrameWaitForSelector f (get_selector ''audio_source'') (Some TIMEOUT_STANDARD)
      (Some ''attached'')"

abbreviation read_src :: "handle \<Rightarrow> action" where
  "read_src ae \<equiv> GetAttribute ae ''src''"

abbreviation fill_response :: "frame \<Rightarrow> string \<Rightarrow> action" where
  "fill_response f v \<equiv> FrameFill f (get_selector ''audio_response'') v"

abbreviation click_verify :: "frame \<Rightarrow> action" where
  "click_verify f \<equiv> FrameClick f (get_selector ''verify_button'')"

abbreviation wait_checkbox :: "frame \<Rightarrow> action" where
  "wait_checkbox f \<equiv>
    FrameWaitForSelector f (get_selector ''checkbox'') (Some TIMEOUT_STANDARD) None"

abbreviation press_checkbox :: "frame \<Rightarrow> action" where
  "press_checkbox f \<equiv> FrameClick f (get_selector ''checkbox'')"

abbreviation wait_audio_button :: "frame \<Rightarrow> action" where
  "wait_audio_button f \<equiv>
    FrameWaitForSelector f (get_selector ''audio_challenge'') (Some TIMEOUT_STANDARD) None"

abbreviation press_audio_button :: "frame \<Rightarrow> action" where
  "press_audio_button f \<equiv> FrameClick f (get_selector ''audio_challenge'')"

abbreviation wait_token :: "frame \<Rightarrow> action" where
  "wait_token f \<equiv> FrameWaitForSelector f (get_selector ''token'') None None"

subsection \<open>The calls of a run on these pages\<close>

text \<open>
  On the pages above every lookup answers element 1 and frame 2, so that the calls of
  each section of a run are fixed. The temporary files are \<^verbatim>\<open>/tmp/7.mp3\<close> and
  \<^verbatim>\<open>/tmp/7.wav\<close>.
\<close>

definition calls_checkbox :: "action list" where
  "calls_checkbox =
    [wait_widget TIMEOUT_STANDARD, ContentFrame 1, wait_checkbox 2, press_checkbox 2]"

definition calls_solved_check :: "action list" where
  "calls_solved_check = [wait_widget TIMEOUT_SHORT, ContentFrame 1, wait_checkmark 2, read_style 1]"

definition calls_audio_button :: "action list" where
  "calls_audio_button =
    [wait_challenge (Some TIMEOUT_STANDARD), ContentFrame 1, wait_audio_button 2,
     press_audio_button 2, PageWaitForTimeout 300]"

definition calls_detection :: "action list" where
  "calls_detection =
    [wait_challenge (Some TIMEOUT_DETECTION), ContentFrame 1, query_error 2, IsVisible 1]"

definition calls_audio_source :: "action list" where
  "calls_audio_source = [wait_audio_source 2, read_src 1]"

definition calls_transcription :: "action list" where
  "calls_transcription =
    [Randrange 1 1000, Randrange 1 1000,
     Urlretrieve ''https://audio.test/clip.mp3'' ''/tmp/7.mp3'', FromMp3 ''/tmp/7.mp3'',
     Export ''/tmp/7.wav'' ''wav'', NewRecognizer, AudioFileEnter ''/tmp/7.wav'', Record,
     AudioFileExit, RecognizeGoogle,
     PathExists ''/tmp/7.mp3'', OsRemove ''/tmp/7.mp3'',
     PathExists ''/tmp/7.wav'', OsRemove ''/tmp/7.wav'']"

section \<open>Properties\<close>

lemmas prog_defs = seq_def ret_def raise_def try_except_def try_finally_def
  ask_elem_def ask_frame_def ask_unit_def ask_attr_def ask_bool_def ask_text_def ask_exists_def
  randrange_def is_Exception_def

lemmas page_defs = page_def page_empty_style_def page_detected_def page_audio_def
  page_no_recognition_def page_timeout_def

lemmas calls_defs = calls_checkbox_def calls_solved_check_def calls_audio_button_def
  calls_detection_def calls_audio_source_def calls_transcription_def

lemmas run_defs = prog_defs page_defs calls_defs audio_attrs_def stuck_files_def
  path_join_def TEMP_DIR_def format_nat.simps digit_char_def is_OSError_def

subsection \<open>The selector table\<close>

text \<open>
  Claim C9. A role that is not one of the ten names of the table resolves to the empty
  string, and each of the ten names resolves to its fixed, non-empty expression.
  \<open>get_selector\<close> is a total function to strings: \<^verbatim>\<open>dict.get\<close> with a default has no
  raising branch for a string key.
\<close>

theorem get_selector_table:
  "(selector \<notin> {''checkbox'', ''audio_challenge'', ''audio_response'', ''verify_button'',
        ''token'', ''iframe'', ''challenge_frame'', ''checkmark'', ''error_message'',
        ''audio_source''} \<longrightarrow> get_selector selector = '''')
   \<and> get_selector ''checkbox'' = ''.rc-anchor-content''
   \<and> get_selector ''audio_challenge'' = ''#recaptcha-audio-button''
   \<and> get_selector ''audio_response'' = ''#audio-response''
   \<and> get_selector ''verify_button'' = ''#recaptcha-verify-button''
   \<and> get_selector ''token'' = ''#recaptcha-token''
   \<and> get_selector ''iframe'' = ''iframe[title='' @ [CHR 0x27] @ ''reCAPTCHA'' @ [CHR 0x27] @ '']''
   \<and> get_selector ''challenge_frame'' =
         ''iframe[title*='' @ [CHR 0x27] @ ''recaptcha challenge'' @ [CHR 0x27] @ '']''
   \<and> get_selector ''checkmark'' = ''.recaptcha-checkbox-checkmark''
   \<and> get_selector ''error_message'' = ''text='' @ [CHR 0x27] @ ''Try again later'' @ [CHR 0x27]
   \<and> get_selector ''audio_source'' = ''#audio-source''
   \<and> (\<forall>role \<in> {''checkbox'', ''audio_challenge'', ''audio_response'', ''verify_button'',
        ''token'', ''iframe'', ''challenge_frame'', ''checkmark'', ''error_message'',
        ''audio_source''}. get_selector role \<noteq> '''')"
  by (simp add: get_selector_def selectors_def)

theorem get_selector_table_witness:
  "''submit_button'' \<notin> {''checkbox'', ''audio_challenge'', ''audio_response'', ''verify_button'',
        ''token'', ''iframe'', ''challenge_frame'', ''checkmark'', ''error_message'',
        ''audio_source''}
   \<and> get_selector ''submit_button'' = ''''
   \<and> get_selector ''token'' \<noteq> ''''"
  using get_selector_table [of "''submit_button''"] by simp

subsection \<open>is_solved\<close>

text \<open>
  Claim C1, as the spec states it, asks for a non-empty \<^verbatim>\<open>style\<close> attribute. On a page
  whose checkmark has the attribute \<^verbatim>\<open>style=""\<close>, the attribute read gives the empty
  string and \<open>is_solved\<close> returns true.
\<close>

theorem is_solved_empty_style_counterexample:
  "attr_result page_empty_style
     [wait_widget TIMEOUT_SHORT, ContentFrame 1, wait_checkmark 2, read_style 1] = Inr (Some '''')
   \<and> is_solved page_empty_style [] =
     (Inr True, [wait_widget TIMEOUT_SHORT, ContentFrame 1, wait_checkmark 2, read_style 1])"
  by (simp add: is_solved_def prog_defs page_defs)

text \<open>
  Claim C1, amended. \<open>is_solved\<close> returns true only if the widget frame, its content and
  the checkmark are found and the read of the checkmark's \<^verbatim>\<open>style\<close> attribute gives a
  string, which is to say that the attribute is present; and when all of that holds it
  returns true, whether the string is empty or not.
\<close>

theorem is_solved_true_iff_style_present:
  "(is_solved env tr = (Inr True, tr') \<longrightarrow>
      (\<exists>ih f c s.
          elem_result env (tr @ [wait_widget TIMEOUT_SHORT]) = Inr (Some ih)
        \<and> frame_result env (tr @ [wait_widget TIMEOUT_SHORT, ContentFrame ih]) = Inr (Some f)
        \<and> elem_result env (tr @ [wait_widget TIMEOUT_SHORT, ContentFrame ih, wait_checkmark f])
            = Inr (Some c)
        \<and> attr_result env
            (tr @ [wait_widget TIMEOUT_SHORT, ContentFrame ih, wait_checkmark f, read_style c])
            = Inr (Some s)
        \<and> tr' = tr @ [wait_widget TIMEOUT_SHORT, ContentFrame ih, wait_checkmark f, read_style c]))
   \<and> (\<forall>ih f c s.
          elem_result env (tr @ [wait_widget TIMEOUT_SHORT]) = Inr (Some ih)
        \<and> frame_result env (tr @ [wait_widget TIMEOUT_SHORT, ContentFrame ih]) = Inr (Some f)
        \<and> elem_result env (tr @ [wait_widget TIMEOUT_SHORT, ContentFrame ih, wait_checkmark f])
            = Inr (Some c)
        \<and> attr_result env
            (tr @ [wait_widget TIMEOUT_SHORT, ContentFrame ih, wait_checkmark f, read_style c])
            = Inr (Some s)
        \<longrightarrow> is_solved env tr =
            (Inr True,
             tr @ [wait_widget TIMEOUT_SHORT, ContentFrame ih, wait_checkmark f, read_style c]))"
  unfolding is_solved_def prog_defs
  by (auto split: sum.splits option.splits prod.splits)

theorem is_solved_true_iff_style_present_witness:
  "is_solved page_audio [PageWaitForTimeout 400] =
     (Inr True,
      [PageWaitForTimeout 400, wait_widget TIMEOUT_SHORT, ContentFrame 1, wait_checkmark 2,
       read_style 1])
   \<and> attr_result page_audio
        [PageWaitForTimeout 400, wait_widget TIMEOUT_SHORT, ContentFrame 1, wait_checkmark 2,
         read_style 1] = Inr (Some ''width: 100%'')"
proof -
  have lookups:
    "elem_result page_audio ([PageWaitForTimeout 400] @ [wait_widget TIMEOUT_SHORT]) = Inr (Some 1)
     \<and> frame_result page_audio
         ([PageWaitForTimeout 400] @ [wait_widget TIMEOUT_SHORT, ContentFrame 1]) = Inr (Some 2)
     \<and> elem_result page_audio
         ([PageWaitForTimeout 400] @ [wait_widget TIMEOUT_SHORT, ContentFrame 1, wait_checkmark 2])
         = Inr (Some 1)
     \<and> attr_result page_audio
         ([PageWaitForTimeout 400] @
          [wait_widget TIMEOUT_SHORT, ContentFrame 1, wait_checkmark 2, read_style 1])
         = Inr (Some ''width: 100%'')"
    by (simp add: page_defs audio_attrs_def)
  with is_solved_true_iff_style_present [of page_audio "[PageWaitForTimeout 400]"]
  have "is_solved page_audio [PageWaitForTimeout 400] =
     (Inr True,
      [PageWaitForTimeout 400] @
      [wait_widget TIMEOUT_SHORT, ContentFrame 1, wait_checkmark 2, read_style 1])"
    by blast
  with lookups show ?thesis by simp
qed

text \<open>
  Claim C7. \<open>is_solved\<close> always returns a truth value and never raises. When the wait
  for the widget frame does not deliver an element (it raises, as on a timeout, or gives
  \<^verbatim>\<open>None\<close>), when the frame's content cannot be entered, when the wait for the checkmark
  does not deliver an element, or when the attribute read does not deliver a string, the
  value is false.
\<close>

theorem is_solved_never_raises:
  "(\<exists>b tr'. is_solved env tr = (Inr b, tr'))
   \<and> ((\<forall>ih. elem_result env (tr @ [wait_widget TIMEOUT_SHORT]) \<noteq> Inr (Some ih))
        \<longrightarrow> is_solved env tr = (Inr False, tr @ [wait_widget TIMEOUT_SHORT]))
   \<and> (\<forall>ih. elem_result env (tr @ [wait_widget TIMEOUT_SHORT]) = Inr (Some ih)
          \<and> (\<forall>f. frame_result env (tr @ [wait_widget TIMEOUT_SHORT, ContentFrame ih])
                   \<noteq> Inr (Some f))
        \<longrightarrow> is_solved env tr = (Inr False, tr @ [wait_widget TIMEOUT_SHORT, ContentFrame ih]))
   \<and> (\<forall>ih f. elem_result env (tr @ [wait_widget TIMEOUT_SHORT]) = Inr (Some ih)
          \<and> frame_result env (tr @ [wait_widget TIMEOUT_SHORT, ContentFrame ih]) = Inr (Some f)
          \<and> (\<forall>c. elem_result env
                    (tr @ [wait_widget TIMEOUT_SHORT, ContentFrame ih, wait_checkmark f])
                   \<noteq> Inr (Some c))
        \<longrightarrow> is_solved env tr =
            (Inr False, tr @ [wait_widget TIMEOUT_SHORT, ContentFrame ih, wait_checkmark f]))
   \<and> (\<forall>ih f c. elem_result env (tr @ [wait_widget TIMEOUT_SHORT]) = Inr (Some ih)
          \<and> frame_result env (tr @ [wait_widget TIMEOUT_SHORT, ContentFrame ih]) = Inr (Some f)
          \<and> elem_result env (tr @ [wait_widget TIMEOUT_SHORT, ContentFrame ih, wait_checkmark f])
              = Inr (Some c)
          \<and> (\<forall>s. attr_result env
                    (tr @ [wait_widget TIMEOUT_SHORT, ContentFrame ih, wait_checkmark f,
                           read_style c])
                   \<noteq> Inr (Some s))
        \<longrightarrow> is_solved env tr =
            (Inr False,
             tr @ [wait_widget TIMEOUT_SHORT, ContentFrame ih, wait_checkmark f, read_style c]))"
  unfolding is_solved_def prog_defs
  by (auto split: sum.splits option.splits prod.splits)

theorem is_solved_never_raises_witness:
  "(\<forall>ih. elem_result page_timeout [wait_widget TIMEOUT_SHORT] \<noteq> Inr (Some ih))
   \<and> is_solved page_timeout [] = (Inr False, [wait_widget TIMEOUT_SHORT])"
proof -
  have timeout: "\<forall>ih. elem_result page_timeout ([] @ [wait_widget TIMEOUT_SHORT]) \<noteq> Inr (Some ih)"
    by (simp add: page_defs)
  with is_solved_never_raises [of page_timeout "[]"]
  have "is_solved page_timeout [] = (Inr False, [] @ [wait_widget TIMEOUT_SHORT])"
    by blast
  with timeout show ?thesis by simp
qed

subsection \<open>is_detected\<close>

text \<open>
  Claim C8. \<open>is_detected\<close> always returns a truth value and never raises. It returns
  true only if the challenge frame is found within the detection timeout of 50 ms, its
  content is entered, the non-waiting query for the error message gives an element, and
  that element is visible. When the wait for the challenge frame does not deliver an
  element (it raises on the timeout, or gives \<^verbatim>\<open>None\<close>), the value is false.
\<close>

theorem is_detected_only_if_visible:
  "(\<exists>b tr'. is_detected env tr = (Inr b, tr'))
   \<and> TIMEOUT_DETECTION = 50
   \<and> (is_detected env tr = (Inr True, tr') \<longrightarrow>
        (\<exists>ch f m.
            elem_result env (tr @ [wait_challenge (Some TIMEOUT_DETECTION)]) = Inr (Some ch)
          \<and> frame_result env (tr @ [wait_challenge (Some TIMEOUT_DETECTION), ContentFrame ch])
              = Inr (Some f)
          \<and> elem_result env
              (tr @ [wait_challenge (Some TIMEOUT_DETECTION), ContentFrame ch, query_error f])
              = Inr (Some m)
          \<and> bool_result env
              (tr @ [wait_challenge (Some TIMEOUT_DETECTION), ContentFrame ch, query_error f,
                     IsVisible m])
              = Inr True
          \<and> tr' = tr @ [wait_challenge (Some TIMEOUT_DETECTION), ContentFrame ch, query_error f,
                         IsVisible m]))
   \<and> ((\<forall>ch. elem_result env (tr @ [wait_challenge (Some TIMEOUT_DETECTION)]) \<noteq> Inr (Some ch))
        \<longrightarrow> is_detected env tr = (Inr False, tr @ [wait_challenge (Some TIMEOUT_DETECTION)]))
   \<and> (\<forall>ch f. elem_result env (tr @ [wait_challenge (Some TIMEOUT_DETECTION)]) = Inr (Some ch)
          \<and> frame_result env (tr @ [wait_challenge (Some TIMEOUT_DETECTION), ContentFrame ch])
              = Inr (Some f)
          \<and> (\<forall>m. elem_result env
                    (tr @ [wait_challenge (Some TIMEOUT_DETECTION), ContentFrame ch, query_error f])
                   \<noteq> Inr (Some m))
        \<longrightarrow> is_detected env tr =
            (Inr False,
             tr @ [wait_challenge (Some TIMEOUT_DETECTION), ContentFrame ch, query_error f]))
   \<and> (\<forall>ch f m. elem_result env (tr @ [wait_challenge (Some TIMEOUT_DETECTION)]) = Inr (Some ch)
          \<and> frame_result env (tr @ [wait_challenge (Some TIMEOUT_DETECTION), ContentFrame ch])
              = Inr (Some f)
          \<and> elem_result env
              (tr @ [wait_challenge (Some TIMEOUT_DETECTION), ContentFrame ch, query_error f])
              = Inr (Some m)
          \<and> bool_result env
              (tr @ [wait_challenge (Some TIMEOUT_DETECTION), ContentFrame ch, query_error f,
                     IsVisible m])
              \<noteq> Inr True
        \<longrightarrow> is_detected env tr =
            (Inr False,
             tr @ [wait_challenge (Some TIMEOUT_DETECTION), ContentFrame ch, query_error f,
                   IsVisible m]))"
  unfolding is_detected_def prog_defs
  by (auto simp: TIMEOUT_DETECTION_def split: sum.splits option.splits prod.splits)

theorem is_detected_only_if_visible_witness:
  "is_detected page_detected [] =
     (Inr True,
      [wait_challenge (Some TIMEOUT_DETECTION), ContentFrame 1, query_error 2, IsVisible 1])
   \<and> bool_result page_detected
       [wait_challenge (Some TIMEOUT_DETECTION), ContentFrame 1, query_error 2, IsVisible 1]
       = Inr True
   \<and> (\<forall>ch. elem_result page_timeout [wait_challenge (Some TIMEOUT_DETECTION)] \<noteq> Inr (Some ch))
   \<and> is_detected page_timeout [] = (Inr False, [wait_challenge (Some TIMEOUT_DETECTION)])"
proof -
  have run: "is_detected page_detected [] =
     (Inr True,
      [wait_challenge (Some TIMEOUT_DETECTION), ContentFrame 1, query_error 2, IsVisible 1])"
    by (simp add: is_detected_def prog_defs page_defs)
  with is_detected_only_if_visible [of page_detected "[]"
      "[wait_challenge (Some TIMEOUT_DETECTION), ContentFrame 1, query_error 2, IsVisible 1]"]
  obtain ch f m where
    "bool_result page_detected
       ([] @ [wait_challenge (Some TIMEOUT_DETECTION), ContentFrame ch, query_error f, IsVisible m])
       = Inr True"
    and "[wait_challenge (Some TIMEOUT_DETECTION), ContentFrame 1, query_error 2, IsVisible 1] =
       [] @ [wait_challenge (Some TIMEOUT_DETECTION), ContentFrame ch, query_error f, IsVisible m]"
    by blast
  then have visible: "bool_result page_detected
       [wait_challenge (Some TIMEOUT_DETECTION), ContentFrame 1, query_error 2, IsVisible 1]
       = Inr True"
    by auto
  have timeout:
    "\<forall>ch. elem_result page_timeout ([] @ [wait_challenge (Some TIMEOUT_DETECTION)])
          \<noteq> Inr (Some ch)"
    by (simp add: page_defs)
  with is_detected_only_if_visible [of page_timeout "[]"]
  have "is_detected page_timeout [] = (Inr False, [] @ [wait_challenge (Some TIMEOUT_DETECTION)])"
    by blast
  with run visible timeout show ?thesis by simp
qed

subsection \<open>What a program appends to the trace\<close>

text \<open>
  \<open>emits\<close> is preserved by the combinators, so that it holds of a program as soon as
  it holds of each of its calls.
\<close>

lemma emits_ret: "emits P (ret x)"
  by (simp add: emits_def ret_def)

lemma emits_raise: "emits P (raise e)"
  by (simp add: emits_def raise_def)

lemma emits_seq:
  assumes m: "emits P m" and k: "\<And>x. emits P (k x)"
  shows "emits P (seq m k)"
  unfolding emits_def
proof
  fix tr
  from m obtain n1 where n1: "snd (m tr) = tr @ n1" "list_all P n1"
    unfolding emits_def by blast
  show "\<exists>new. snd (seq m k tr) = tr @ new \<and> list_all P new"
  proof (cases "fst (m tr)")
    case (Inl e)
    with n1 show ?thesis
      by (cases "m tr") (auto simp: seq_def)
  next
    case (Inr x)
    from k obtain n2 where n2: "snd (k x (tr @ n1)) = (tr @ n1) @ n2" "list_all P n2"
      unfolding emits_def by blast
    with n1 Inr have "snd (seq m k tr) = tr @ (n1 @ n2) \<and> list_all P (n1 @ n2)"
      by (cases "m tr") (auto simp: seq_def)
    then show ?thesis by blast
  qed
qed

lemma emits_try_except:
  assumes m: "emits P m" and h: "\<And>e. emits P (h e)"
  shows "emits P (try_except c m h)"
  unfolding emits_def
proof
  fix tr
  from m obtain n1 where n1: "snd (m tr) = tr @ n1" "list_all P n1"
    unfolding emits_def by blast
  show "\<exists>new. snd (try_except c m h tr) = tr @ new \<and> list_all P new"
  proof (cases "fst (m tr)")
    case (Inr x)
    with n1 show ?thesis
      by (cases "m tr") (auto simp: try_except_def)
  next
    case (Inl e)
    from h obtain n2 where n2: "snd (h e (tr @ n1)) = (tr @ n1) @ n2" "list_all P n2"
      unfolding emits_def by blast
    with n1 Inl have "snd (try_except c m h tr) = tr @ (if c e then n1 @ n2 else n1)
        \<and> list_all P (if c e then n1 @ n2 else n1)"
      by (cases "m tr") (auto simp: try_except_def)
    then show ?thesis by blast
  qed
qed

lemma emits_try_finally:
  assumes m: "emits P m" and f: "emits P fin"
  shows "emits P (try_finally m fin)"
  unfolding emits_def
proof
  fix tr
  from m obtain n1 where n1: "snd (m tr) = tr @ n1" "list_all P n1"
    unfolding emits_def by blast
  from f obtain n2 where n2: "snd (fin (tr @ n1)) = (tr @ n1) @ n2" "list_all P n2"
    unfolding emits_def by blast
  from n1 n2 have "snd (try_finally m fin tr) = tr @ (n1 @ n2) \<and> list_all P (n1 @ n2)"
    by (cases "m tr"; cases "fin (tr @ n1)") (auto simp: try_finally_def split: sum.splits)
  then show "\<exists>new. snd (try_finally m fin tr) = tr @ new \<and> list_all P new"
    by blast
qed

lemma emits_ask:
  assumes "P a"
  shows "emits P (ask_elem env a)" and "emits P (ask_frame env a)" and "emits P (ask_unit env a)"
    and "emits P (ask_attr env a)" and "emits P (ask_bool env a)" and "emits P (ask_text env a)"
    and "emits P (ask_exists env a)"
  using assms
  by (simp_all add: emits_def ask_elem_def ask_frame_def ask_unit_def ask_attr_def ask_bool_def
      ask_text_def ask_exists_def)

lemma emits_randrange: "P (Randrange lo hi) \<Longrightarrow> emits P (randrange env lo hi)"
  by (simp add: emits_def randrange_def)

lemma emits_option:
  "emits P a \<Longrightarrow> (\<And>x. emits P (b x)) \<Longrightarrow> emits P (case v of None \<Rightarrow> a | Some x \<Rightarrow> b x)"
  by (cases v) simp_all

lemma emits_if: "emits P a \<Longrightarrow> emits P b \<Longrightarrow> emits P (if c then a else b)"
  by simp

lemma emits_remove_paths:
  assumes "\<And>p. P (PathExists p)" and "\<And>p. P (OsRemove p)"
  shows "emits P (remove_paths env ps)"
  by (induction ps) (auto intro!: emits_ret emits_seq emits_if emits_try_except emits_ask assms)

lemmas emits_intros = emits_ret emits_raise emits_seq emits_try_except emits_try_finally
  emits_ask emits_randrange emits_option emits_if emits_remove_paths

lemma emits_is_solved:
  assumes "P (wait_widget TIMEOUT_SHORT)"
    and "\<And>h. P (ContentFrame h)"
    and "\<And>f. P (wait_checkmark f)"
    and "\<And>h. P (read_style h)"
  shows "emits P (is_solved env)"
  unfolding is_solved_def by (intro emits_intros assms)

lemma emits_is_detected:
  assumes "P (wait_challenge (Some TIMEOUT_DETECTION))"
    and "\<And>h. P (ContentFrame h)"
    and "\<And>f. P (query_error f)"
    and "\<And>h. P (IsVisible h)"
  shows "emits P (is_detected env)"
  unfolding is_detected_def by (intro emits_intros assms)

lemma emits_get_token:
  assumes "P (wait_challenge None)"
    and "\<And>h. P (ContentFrame h)"
    and "\<And>f. P (FrameWaitForSelector f (get_selector ''token'') None None)"
    and "\<And>h. P (GetAttribute h ''value'')"
  shows "emits P (get_token env)"
  unfolding get_token_def by (intro emits_intros assms)

lemma emits_click_checkbox:
  assumes "P (wait_widget TIMEOUT_STANDARD)"
    and "\<And>h. P (ContentFrame h)"
    and "\<And>f. P (FrameWaitForSelector f (get_selector ''checkbox'') (Some TIMEOUT_STANDARD) None)"
    and "\<And>f. P (FrameClick f (get_selector ''checkbox''))"
  shows "emits P (click_checkbox env)"
  unfolding click_checkbox_def by (intro emits_intros assms)

lemma emits_click_audio_button:
  assumes "P (wait_challenge (Some TIMEOUT_STANDARD))"
    and "\<And>h. P (ContentFrame h)"
    and "\<And>f. P (FrameWaitForSelector f (get_selector ''audio_challenge'') (Some TIMEOUT_STANDARD) None)"
    and "\<And>f. P (FrameClick f (get_selector ''audio_challenge''))"
    and "P (PageWaitForTimeout 300)"
  shows "emits P (click_audio_button env)"
  unfolding click_audio_button_def by (intro emits_intros assms)

lemma emits_process_audio_challenge:
  assumes "\<And>a. is_transcription a \<Longrightarrow> P a"
  shows "emits P (process_audio_challenge env url)"
  unfolding process_audio_challenge_def transcribe_def Let_def
  by (intro emits_intros assms) simp_all

lemma emits_audio_challenge:
  assumes "\<And>a. is_transcription a \<Longrightarrow> P a"
    and "P (wait_audio_source f)"
    and "\<And>h. P (read_src h)"
    and "\<And>v. P (fill_response f v)"
    and "P (click_verify f)"
    and "P (PageWaitForTimeout 400)"
    and "emits P (is_solved env)"
  shows "emits P (audio_challenge env f)"
  unfolding audio_challenge_def
  by (intro emits_intros emits_process_audio_challenge assms)

lemma emitsD:
  assumes "emits P m" and "m tr = (r, tr')"
  shows "\<exists>new. tr' = tr @ new \<and> list_all P new"
  using assms unfolding emits_def by (metis snd_conv)

lemma emits_new:
  assumes "emits P m"
  shows "\<forall>a \<in> set (drop (length tr) (snd (m tr))). P a"
proof -
  from assms obtain new where "snd (m tr) = tr @ new" "list_all P new"
    unfolding emits_def by blast
  then show ?thesis by (simp add: list_all_iff)
qed

lemma transcriptionE: "is_transcription a \<Longrightarrow> \<not> is_wait a"
  by (cases a) simp_all

subsection \<open>The timeouts of the element waits\<close>

text \<open>
  Claim C10. Every element wait that \<open>get_token\<close> issues has no timeout argument, and
  when the challenge frame and its content are found it issues both of its waits, for
  the challenge frame and for the token field. Every element wait that
  \<open>solveCaptcha\<close>, \<open>is_solved\<close> and \<open>is_detected\<close> issue carries one of the three
  timeout constants, which are 7000, 1000 and 50 ms.
\<close>

theorem get_token_waits_without_timeout:
  "(\<forall>a \<in> set (drop (length tr) (snd (get_token env tr))). is_wait a \<longrightarrow> wait_timeout a = None)
   \<and> (\<forall>ch f. elem_result env (tr @ [wait_challenge None]) = Inr (Some ch)
          \<and> frame_result env (tr @ [wait_challenge None, ContentFrame ch]) = Inr (Some f)
        \<longrightarrow> (\<exists>rest. snd (get_token env tr) =
              tr @ wait_challenge None # ContentFrame ch
                 # FrameWaitForSelector f (get_selector ''token'') None None # rest))
   \<and> (\<forall>a \<in> set (drop (length tr) (snd (solveCaptcha env tr))).
        is_wait a \<longrightarrow>
        wait_timeout a \<in> {Some TIMEOUT_STANDARD, Some TIMEOUT_SHORT, Some TIMEOUT_DETECTION})
   \<and> (\<forall>a \<in> set (drop (length tr) (snd (is_solved env tr))).
        is_wait a \<longrightarrow>
        wait_timeout a \<in> {Some TIMEOUT_STANDARD, Some TIMEOUT_SHORT, Some TIMEOUT_DETECTION})
   \<and> (\<forall>a \<in> set (drop (length tr) (snd (is_detected env tr))).
        is_wait a \<longrightarrow>
        wait_timeout a \<in> {Some TIMEOUT_STANDARD, Some TIMEOUT_SHORT, Some TIMEOUT_DETECTION})
   \<and> TIMEOUT_STANDARD = 7000 \<and> TIMEOUT_SHORT = 1000 \<and> TIMEOUT_DETECTION = 50"
proof -
  let ?none = "\<lambda>a. is_wait a \<longrightarrow> wait_timeout a = None"
  let ?bounded = "\<lambda>a. is_wait a \<longrightarrow>
    wait_timeout a \<in> {Some TIMEOUT_STANDARD, Some TIMEOUT_SHORT, Some TIMEOUT_DETECTION}"
  have token: "emits ?none (get_token env)"
    by (rule emits_get_token) simp_all
  have solved: "emits ?bounded (is_solved env)"
    by (rule emits_is_solved) simp_all
  have detected: "emits ?bounded (is_detected env)"
    by (rule emits_is_detected) simp_all
  have solve: "emits ?bounded (solveCaptcha env)"
    unfolding solveCaptcha_def
    by (intro emits_intros emits_click_checkbox emits_click_audio_button emits_audio_challenge
        solved detected) (simp_all add: transcriptionE)
  have both: "\<forall>ch f. elem_result env (tr @ [wait_challenge None]) = Inr (Some ch)
          \<and> frame_result env (tr @ [wait_challenge None, ContentFrame ch]) = Inr (Some f)
        \<longrightarrow> (\<exists>rest. snd (get_token env tr) =
              tr @ wait_challenge None # ContentFrame ch
                 # FrameWaitForSelector f (get_selector ''token'') None None # rest)"
    unfolding get_token_def prog_defs
    by (auto split: sum.splits option.splits prod.splits)
  from emits_new [OF token] emits_new [OF solve] emits_new [OF solved] emits_new [OF detected] both
  show ?thesis
    by (simp add: TIMEOUT_STANDARD_def TIMEOUT_SHORT_def TIMEOUT_DETECTION_def)
qed

theorem get_token_waits_without_timeout_witness:
  "snd (get_token page_audio []) =
     [wait_challenge None, ContentFrame 1, wait_token 2, GetAttribute 1 ''value'']
   \<and> is_wait (wait_challenge None) \<and> wait_timeout (wait_challenge None) = None
   \<and> is_wait (wait_token 2) \<and> wait_timeout (wait_token 2) = None
   \<and> snd (is_detected page_timeout []) = [wait_challenge (Some TIMEOUT_DETECTION)]
   \<and> is_wait (wait_challenge (Some TIMEOUT_DETECTION))
   \<and> wait_timeout (wait_challenge (Some TIMEOUT_DETECTION)) = Some 50"
proof -
  have token: "snd (get_token page_audio []) =
     [wait_challenge None, ContentFrame 1, wait_token 2, GetAttribute 1 ''value'']"
    by (simp add: get_token_def prog_defs page_defs audio_attrs_def)
  have detected: "snd (is_detected page_timeout []) = [wait_challenge (Some TIMEOUT_DETECTION)]"
    by (simp add: is_detected_def prog_defs page_defs)
  from get_token_waits_without_timeout [of "[]" page_audio] token
  have "\<forall>a \<in> set [wait_challenge None, ContentFrame 1, wait_token 2, GetAttribute 1 ''value''].
          is_wait a \<longrightarrow> wait_timeout a = None"
    by simp
  then have none: "wait_timeout (wait_challenge None) = None \<and> wait_timeout (wait_token 2) = None"
    by simp
  from get_token_waits_without_timeout [of "[]" page_audio]
  have "TIMEOUT_DETECTION = 50"
    by blast
  with token detected none show ?thesis by simp
qed

subsection \<open>solveCaptcha: the checkbox pass and the bot detection\<close>

text \<open>
  Claim C3. If the checkbox has been clicked and \<open>is_solved\<close> then returns true,
  \<open>solveCaptcha\<close> returns at that point, and nothing it has done is a call of the
  transcription step, a read of a \<^verbatim>\<open>src\<close> attribute, or a call on the selector of the
  challenge frame, of the audio button or of the audio source.
\<close>

theorem solveCaptcha_checkbox_pass:
  assumes click: "click_checkbox env tr0 = (Inr (), tr1)"
    and solved: "is_solved env tr1 = (Inr True, tr2)"
  shows "solveCaptcha env tr0 = (Inr (), tr2)
    \<and> (\<forall>a \<in> set (drop (length tr0) tr2).
          \<not> is_transcription a \<and> \<not> reads_attribute ''src'' a
        \<and> selector_of a \<notin> {Some (get_selector ''challenge_frame''),
              Some (get_selector ''audio_challenge''), Some (get_selector ''audio_source'')})"
proof -
  let ?P = "\<lambda>a. \<not> is_transcription a \<and> \<not> reads_attribute ''src'' a
        \<and> selector_of a \<notin> {Some (get_selector ''challenge_frame''),
              Some (get_selector ''audio_challenge''), Some (get_selector ''audio_source'')}"
  have run: "solveCaptcha env tr0 = (Inr (), tr2)"
    using click solved by (simp add: solveCaptcha_def seq_def ret_def)
  have "emits ?P (click_checkbox env)"
    by (rule emits_click_checkbox) (simp_all add: get_selector_def selectors_def)
  from emitsD [OF this click] obtain n1 where n1: "tr1 = tr0 @ n1" "list_all ?P n1"
    by blast
  have "emits ?P (is_solved env)"
    by (rule emits_is_solved) (simp_all add: get_selector_def selectors_def)
  from emitsD [OF this solved] obtain n2 where n2: "tr2 = tr1 @ n2" "list_all ?P n2"
    by blast
  from n1 n2 have "\<forall>a \<in> set (drop (length tr0) tr2). ?P a"
    by (auto simp: list_all_iff)
  with run show ?thesis by blast
qed

theorem solveCaptcha_checkbox_pass_witness:
  "click_checkbox page_empty_style [] =
     (Inr (), [wait_widget TIMEOUT_STANDARD, ContentFrame 1, wait_checkbox 2, press_checkbox 2])
   \<and> is_solved page_empty_style
       [wait_widget TIMEOUT_STANDARD, ContentFrame 1, wait_checkbox 2, press_checkbox 2] =
     (Inr True,
      [wait_widget TIMEOUT_STANDARD, ContentFrame 1, wait_checkbox 2, press_checkbox 2,
       wait_widget TIMEOUT_SHORT, ContentFrame 1, wait_checkmark 2, read_style 1])
   \<and> solveCaptcha page_empty_style [] =
     (Inr (),
      [wait_widget TIMEOUT_STANDARD, ContentFrame 1, wait_checkbox 2, press_checkbox 2,
       wait_widget TIMEOUT_SHORT, ContentFrame 1, wait_checkmark 2, read_style 1])"
proof -
  have click: "click_checkbox page_empty_style [] =
     (Inr (), [wait_widget TIMEOUT_STANDARD, ContentFrame 1, wait_checkbox 2, press_checkbox 2])"
    by (simp add: click_checkbox_def prog_defs page_defs)
  have solved: "is_solved page_empty_style
       [wait_widget TIMEOUT_STANDARD, ContentFrame 1, wait_checkbox 2, press_checkbox 2] =
     (Inr True,
      [wait_widget TIMEOUT_STANDARD, ContentFrame 1, wait_checkbox 2, press_checkbox 2,
       wait_widget TIMEOUT_SHORT, ContentFrame 1, wait_checkmark 2, read_style 1])"
    by (simp add: is_solved_def prog_defs page_defs)
  from solveCaptcha_checkbox_pass [OF click solved] click solved show ?thesis
    by blast
qed

text \<open>
  Claim C4. If \<open>is_detected\<close> returns true after the audio button has been clicked and
  the pause of 300 ms made, \<open>solveCaptcha\<close> raises the exception with the message
  \<^verbatim>\<open>Captcha detected bot behavior\<close>, as it is and without the prefix of the audio
  handler, and nothing it has done is a call of the transcription step, a read of a
  \<^verbatim>\<open>src\<close> attribute or a call on the selector of the audio source.
\<close>

theorem solveCaptcha_bot_detected:
  assumes click: "click_checkbox env tr0 = (Inr (), tr1)"
    and unsolved: "is_solved env tr1 = (Inr False, tr2)"
    and audio: "click_audio_button env tr2 = (Inr frame, tr3)"
    and detected: "is_detected env tr3 = (Inr True, tr4)"
  shows "solveCaptcha env tr0 = (Inl (Exn PlainException ''Captcha detected bot behavior''), tr4)
    \<and> (\<forall>a \<in> set (drop (length tr0) tr4).
          \<not> is_transcription a \<and> \<not> reads_attribute ''src'' a
        \<and> selector_of a \<noteq> Some (get_selector ''audio_source''))"
proof -
  let ?P = "\<lambda>a. \<not> is_transcription a \<and> \<not> reads_attribute ''src'' a
        \<and> selector_of a \<noteq> Some (get_selector ''audio_source'')"
  have run: "solveCaptcha env tr0 = (Inl (Exn PlainException ''Captcha detected bot behavior''), tr4)"
    using click unsolved audio detected by (simp add: solveCaptcha_def seq_def raise_def)
  have "emits ?P (click_checkbox env)"
    by (rule emits_click_checkbox) (simp_all add: get_selector_def selectors_def)
  from emitsD [OF this click] obtain n1 where n1: "tr1 = tr0 @ n1" "list_all ?P n1"
    by blast
  have "emits ?P (is_solved env)"
    by (rule emits_is_solved) (simp_all add: get_selector_def selectors_def)
  from emitsD [OF this unsolved] obtain n2 where n2: "tr2 = tr1 @ n2" "list_all ?P n2"
    by blast
  have "emits ?P (click_audio_button env)"
    by (rule emits_click_audio_button) (simp_all add: get_selector_def selectors_def)
  from emitsD [OF this audio] obtain n3 where n3: "tr3 = tr2 @ n3" "list_all ?P n3"
    by blast
  have "emits ?P (is_detected env)"
    by (rule emits_is_detected) (simp_all add: get_selector_def selectors_def)
  from emitsD [OF this detected] obtain n4 where n4: "tr4 = tr3 @ n4" "list_all ?P n4"
    by blast
  from n1 n2 n3 n4 have "\<forall>a \<in> set (drop (length tr0) tr4). ?P a"
    by (auto simp: list_all_iff)
  with run show ?thesis by blast
qed

theorem solveCaptcha_bot_detected_witness:
  "click_checkbox page_detected [] =
     (Inr (), [wait_widget TIMEOUT_STANDARD, ContentFrame 1, wait_checkbox 2, press_checkbox 2])
   \<and> is_solved page_detected
       [wait_widget TIMEOUT_STANDARD, ContentFrame 1, wait_checkbox 2, press_checkbox 2] =
     (Inr False,
      [wait_widget TIMEOUT_STANDARD, ContentFrame 1, wait_checkbox 2, press_checkbox 2,
       wait_widget TIMEOUT_SHORT, ContentFrame 1, wait_checkmark 2, read_style 1])
   \<and> click_audio_button page_detected
       [wait_widget TIMEOUT_STANDARD, ContentFrame 1, wait_checkbox 2, press_checkbox 2,
        wait_widget TIMEOUT_SHORT, ContentFrame 1, wait_checkmark 2, read_style 1] =
     (Inr 2,
      [wait_widget TIMEOUT_STANDARD, ContentFrame 1, wait_checkbox 2, press_checkbox 2,
       wait_widget TIMEOUT_SHORT, ContentFrame 1, wait_checkmark 2, read_style 1,
       wait_challenge (Some TIMEOUT_STANDARD), ContentFrame 1, wait_audio_button 2,
       press_audio_button 2, PageWaitForTimeout 300])
   \<and> is_detected page_detected
       [wait_widget TIMEOUT_STANDARD, ContentFrame 1, wait_checkbox 2, press_checkbox 2,
        wait_widget TIMEOUT_SHORT, ContentFrame 1, wait_checkmark 2, read_style 1,
        wait_challenge (Some TIMEOUT_STANDARD), ContentFrame 1, wait_audio_button 2,
        press_audio_button 2, PageWaitForTimeout 300] =
     (Inr True,
      [wait_widget TIMEOUT_STANDARD, ContentFrame 1, wait_checkbox 2, press_checkbox 2,
       wait_widget TIMEOUT_SHORT, ContentFrame 1, wait_checkmark 2, read_style 1,
       wait_challenge (Some TIMEOUT_STANDARD), ContentFrame 1, wait_audio_button 2,
       press_audio_button 2, PageWaitForTimeout 300,
       wait_challenge (Some TIMEOUT_DETECTION), ContentFrame 1, query_error 2, IsVisible 1])
   \<and> solveCaptcha page_detected [] =
     (Inl (Exn PlainException ''Captcha detected bot behavior''),
      [wait_widget TIMEOUT_STANDARD, ContentFrame 1, wait_checkbox 2, press_checkbox 2,
       wait_widget TIMEOUT_SHORT, ContentFrame 1, wait_checkmark 2, read_style 1,
       wait_challenge (Some TIMEOUT_STANDARD), ContentFrame 1, wait_audio_button 2,
       press_audio_button 2, PageWaitForTimeout 300,
       wait_challenge (Some TIMEOUT_DETECTION), ContentFrame 1, query_error 2, IsVisible 1])"
proof -
  have click: "click_checkbox page_detected [] =
     (Inr (), [wait_widget TIMEOUT_STANDARD, ContentFrame 1, wait_checkbox 2, press_checkbox 2])"
    by (simp add: click_checkbox_def prog_defs page_defs)
  have unsolved: "is_solved page_detected
       [wait_widget TIMEOUT_STANDARD, ContentFrame 1, wait_checkbox 2, press_checkbox 2] =
     (Inr False,
      [wait_widget TIMEOUT_STANDARD, ContentFrame 1, wait_checkbox 2, press_checkbox 2,
       wait_widget TIMEOUT_SHORT, ContentFrame 1, wait_checkmark 2, read_style 1])"
    by (simp add: is_solved_def prog_defs page_defs)
  have audio: "click_audio_button page_detected
       [wait_widget TIMEOUT_STANDARD, ContentFrame 1, wait_checkbox 2, press_checkbox 2,
        wait_widget TIMEOUT_SHORT, ContentFrame 1, wait_checkmark 2, read_style 1] =
     (Inr 2,
      [wait_widget TIMEOUT_STANDARD, ContentFrame 1, wait_checkbox 2, press_checkbox 2,
       wait_widget TIMEOUT_SHORT, ContentFrame 1, wait_checkmark 2, read_style 1,
       wait_challenge (Some TIMEOUT_STANDARD), ContentFrame 1, wait_audio_button 2,
       press_audio_button 2, PageWaitForTimeout 300])"
    by (simp add: click_audio_button_def prog_defs page_defs)
  have detected: "is_detected page_detected
       [wait_widget TIMEOUT_STANDARD, ContentFrame 1, wait_checkbox 2, press_checkbox 2,
        wait_widget TIMEOUT_SHORT, ContentFrame 1, wait_checkmark 2, read_style 1,
        wait_challenge (Some TIMEOUT_STANDARD), ContentFrame 1, wait_audio_button 2,
        press_audio_button 2, PageWaitForTimeout 300] =
     (Inr True,
      [wait_widget TIMEOUT_STANDARD, ContentFrame 1, wait_checkbox 2, press_checkbox 2,
       wait_widget TIMEOUT_SHORT, ContentFrame 1, wait_checkmark 2, read_style 1,
       wait_challenge (Some TIMEOUT_STANDARD), ContentFrame 1, wait_audio_button 2,
       press_audio_button 2, PageWaitForTimeout 300,
       wait_challenge (Some TIMEOUT_DETECTION), ContentFrame 1, query_error 2, IsVisible 1])"
    by (simp add: is_detected_def prog_defs page_defs)
  from solveCaptcha_bot_detected [OF click unsolved audio detected] click unsolved audio detected
  show ?thesis by blast
qed

subsection \<open>The transcription step removes its temporary files\<close>

text \<open>
  \<^verbatim>\<open>os.remove\<close> fails with an \<^verbatim>\<open>OSError\<close> (a missing file, a directory, a permission).
  Under that reading of the library the handler \<^verbatim>\<open>except OSError: pass\<close> passes over
  every failed removal, and the loop goes on to the next path.
\<close>

lemma remove_paths_step:
  assumes "\<forall>t p e. unit_result env (t @ [OsRemove p]) = Inl e \<longrightarrow> cls e = OSError"
  shows "remove_paths env (p # ps) tr =
    remove_paths env ps
      (tr @ PathExists p # (if exists_result env (tr @ [PathExists p]) then [OsRemove p] else []))"
proof (cases "unit_result env (tr @ [PathExists p, OsRemove p])")
  case (Inl e)
  with assms [rule_format, of "tr @ [PathExists p]" p e] have "cls e = OSError"
    by simp
  with Inl show ?thesis
    by (simp add: prog_defs is_OSError_def)
next
  case (Inr u)
  then show ?thesis
    by (simp add: prog_defs is_OSError_def)
qed

lemma remove_two_paths:
  assumes "\<forall>t p e. unit_result env (t @ [OsRemove p]) = Inl e \<longrightarrow> cls e = OSError"
  shows "remove_paths env [p, q] tr =
    (Inr (),
     (tr @ PathExists p # (if exists_result env (tr @ [PathExists p]) then [OsRemove p] else []))
        @ PathExists q
        # (if exists_result env
               ((tr @ PathExists p
                   # (if exists_result env (tr @ [PathExists p]) then [OsRemove p] else []))
                @ [PathExists q])
           then [OsRemove q] else []))"
  unfolding remove_paths_step [OF assms] remove_paths.simps(1) ret_def ..

lemma try_finally_run:
  assumes "m tr = (r, t1)" and "fin t1 = (Inr (), t2)"
  shows "try_finally m fin tr = (r, t2)"
  using assms by (simp add: try_finally_def)

text \<open>
  Claim C6. Let the two temporary paths be the ones chosen at the start of the step, and
  let the body of the \<^verbatim>\<open>try\<close> (download, conversion, recognition) end in any way,
  with a text or with an exception, as \<open>r\<close>. Then the step ends with the same \<open>r\<close>, and
  after the body it has asked for each of the two paths, in order, whether it exists, and
  has called \<^verbatim>\<open>os.remove\<close> on each one that does. A removal that fails changes neither
  the outcome nor the handling of the other path.
\<close>

theorem process_audio_challenge_removes_both_files:
  assumes oserror: "\<forall>t p e. unit_result env (t @ [OsRemove p]) = Inl e \<longrightarrow> cls e = OSError"
    and t0: "t0 = tr @ [Randrange 1 1000, Randrange 1 1000]"
    and mp3: "mp3_path = path_join TEMP_DIR
           (format_nat (1 + rand_result env (tr @ [Randrange 1 1000]) mod 999) @ ''.mp3'')"
    and wav: "wav_path = path_join TEMP_DIR (format_nat (1 + rand_result env t0 mod 999) @ ''.wav'')"
    and body: "transcribe env audio_url mp3_path wav_path t0 = (r, t1)"
    and t2: "t2 = t1 @ PathExists mp3_path
                # (if exists_result env (t1 @ [PathExists mp3_path]) then [OsRemove mp3_path] else [])"
    and t3: "t3 = t2 @ PathExists wav_path
                # (if exists_result env (t2 @ [PathExists wav_path]) then [OsRemove wav_path] else [])"
  shows "process_audio_challenge env audio_url tr = (r, t3)"
proof -
  have "process_audio_challenge env audio_url tr =
      try_finally (transcribe env audio_url mp3_path wav_path)
        (remove_paths env [mp3_path, wav_path]) t0"
    unfolding process_audio_challenge_def t0 mp3 wav
    by (simp add: seq_def randrange_def Let_def del: remove_paths.simps)
  also have "\<dots> = (r, t3)"
    using body unfolding t2 t3
    by (rule try_finally_run) (rule remove_two_paths [OF oserror])
  finally show ?thesis .
qed

theorem process_audio_challenge_removes_both_files_witness:
  "unit_result page_no_recognition
        [Randrange 1 1000, Randrange 1 1000,
         Urlretrieve ''https://audio.test/clip.mp3'' ''/tmp/7.mp3'', FromMp3 ''/tmp/7.mp3'',
         Export ''/tmp/7.wav'' ''wav'', NewRecognizer, AudioFileEnter ''/tmp/7.wav'', Record,
         AudioFileExit, RecognizeGoogle, PathExists ''/tmp/7.mp3'', OsRemove ''/tmp/7.mp3'']
       = Inl (Exn OSError ''Permission denied'')
   \<and> process_audio_challenge page_no_recognition ''https://audio.test/clip.mp3'' [] =
       (Inl (Exn OtherException ''recognition request failed''),
        [Randrange 1 1000, Randrange 1 1000,
         Urlretrieve ''https://audio.test/clip.mp3'' ''/tmp/7.mp3'', FromMp3 ''/tmp/7.mp3'',
         Export ''/tmp/7.wav'' ''wav'', NewRecognizer, AudioFileEnter ''/tmp/7.wav'', Record,
         AudioFileExit, RecognizeGoogle,
         PathExists ''/tmp/7.mp3'', OsRemove ''/tmp/7.mp3'',
         PathExists ''/tmp/7.wav'', OsRemove ''/tmp/7.wav''])"
proof -
  have oserror:
    "\<forall>t p e. unit_result page_no_recognition (t @ [OsRemove p]) = Inl e \<longrightarrow> cls e = OSError"
    by (auto simp: page_defs stuck_files_def)
  have stuck: "unit_result page_no_recognition
        [Randrange 1 1000, Randrange 1 1000,
         Urlretrieve ''https://audio.test/clip.mp3'' ''/tmp/7.mp3'', FromMp3 ''/tmp/7.mp3'',
         Export ''/tmp/7.wav'' ''wav'', NewRecognizer, AudioFileEnter ''/tmp/7.wav'', Record,
         AudioFileExit, RecognizeGoogle, PathExists ''/tmp/7.mp3'', OsRemove ''/tmp/7.mp3'']
       = Inl (Exn OSError ''Permission denied'')"
    by (simp add: page_defs stuck_files_def)
  have mp3: "''/tmp/7.mp3'' = path_join TEMP_DIR
      (format_nat (1 + rand_result page_no_recognition ([] @ [Randrange 1 1000]) mod 999) @ ''.mp3'')"
    by (simp add: page_defs path_join_def TEMP_DIR_def format_nat.simps digit_char_def)
  have wav: "''/tmp/7.wav'' = path_join TEMP_DIR
      (format_nat (1 + rand_result page_no_recognition [Randrange 1 1000, Randrange 1 1000] mod 999)
       @ ''.wav'')"
    by (simp add: page_defs path_join_def TEMP_DIR_def format_nat.simps digit_char_def)
  have body: "transcribe page_no_recognition ''https://audio.test/clip.mp3'' ''/tmp/7.mp3''
        ''/tmp/7.wav'' [Randrange 1 1000, Randrange 1 1000] =
      (Inl (Exn OtherException ''recognition request failed''),
       [Randrange 1 1000, Randrange 1 1000,
        Urlretrieve ''https://audio.test/clip.mp3'' ''/tmp/7.mp3'', FromMp3 ''/tmp/7.mp3'',
        Export ''/tmp/7.wav'' ''wav'', NewRecognizer, AudioFileEnter ''/tmp/7.wav'', Record,
        AudioFileExit, RecognizeGoogle])"
    by (simp add: transcribe_def prog_defs page_defs stuck_files_def)
  have "process_audio_challenge page_no_recognition ''https://audio.test/clip.mp3'' [] =
       (Inl (Exn OtherException ''recognition request failed''),
        ([Randrange 1 1000, Randrange 1 1000,
          Urlretrieve ''https://audio.test/clip.mp3'' ''/tmp/7.mp3'', FromMp3 ''/tmp/7.mp3'',
          Export ''/tmp/7.wav'' ''wav'', NewRecognizer, AudioFileEnter ''/tmp/7.wav'', Record,
          AudioFileExit, RecognizeGoogle]
         @ PathExists ''/tmp/7.mp3'' # [OsRemove ''/tmp/7.mp3''])
         @ PathExists ''/tmp/7.wav'' # [OsRemove ''/tmp/7.wav''])"
    by (rule process_audio_challenge_removes_both_files [OF oserror _ mp3 wav body])
       (simp_all add: page_defs)
  with stuck show ?thesis by simp
qed

subsection \<open>solveCaptcha: the audio challenge\<close>

text \<open>
  Once the checkbox is clicked, the captcha is not solved, the audio button is clicked and
  no detection is reported, \<open>solveCaptcha\<close> is the \<^verbatim>\<open>try\<close> block with its handler, run
  from the trace reached.
\<close>

lemma solveCaptcha_audio_phase:
  assumes "click_checkbox env tr0 = (Inr (), tr1)"
    and "is_solved env tr1 = (Inr False, tr2)"
    and "click_audio_button env tr2 = (Inr frame, tr3)"
    and "is_detected env tr3 = (Inr False, tr4)"
  shows "solveCaptcha env tr0 =
    try_except is_Exception (audio_challenge env frame)
      (\<lambda>e. raise (Exn PlainException (''Audio challenge failed: '' @ str e))) tr4"
  using assms by (simp add: solveCaptcha_def seq_def)

lemma audio_challenge_after_transcription:
  assumes "elem_result env (tr @ [wait_audio_source frame]) = Inr (Some ae)"
    and "attr_result env (tr @ [wait_audio_source frame, read_src ae]) = Inr (Some url)"
    and "url \<noteq> ''''"
    and "process_audio_challenge env url (tr @ [wait_audio_source frame, read_src ae]) = (Inr heard, t)"
  shows "audio_challenge env frame tr =
    seq (ask_unit env (fill_response frame (lower heard)))
      (\<lambda>u. seq (ask_unit env (click_verify frame))
      (\<lambda>u. seq (ask_unit env (PageWaitForTimeout 400))
      (\<lambda>u. seq (is_solved env)
      (\<lambda>solved.
         if \<not> solved then raise (Exn PlainException ''Failed to solve the captcha'')
         else ret ())))) t"
  using assms by (simp add: audio_challenge_def seq_def ask_elem_def ask_attr_def)

text \<open>
  Claim C2. When the run reaches the \<^verbatim>\<open>try\<close> block and its body ends as \<open>r\<close>, the
  outcome of \<open>solveCaptcha\<close> is \<open>r\<close> with every exception \<open>e\<close> replaced by the plain
  exception whose message is \<^verbatim>\<open>Audio challenge failed: \<close> followed by \<^verbatim>\<open>str(e)\<close>. The
  body raises whatever the wait for the audio source, the read of the \<^verbatim>\<open>src\<close>
  attribute, the transcription step, the fill, the verify click or the pause raises; it
  raises \<^verbatim>\<open>Cannot find audio source element\<close> when the wait gives \<^verbatim>\<open>None\<close>,
  \<^verbatim>\<open>Audio source URL not found\<close> when the attribute is absent or empty, and
  \<^verbatim>\<open>Failed to solve the captcha\<close> when the final \<open>is_solved\<close> is false.
\<close>

theorem solveCaptcha_wraps_audio_failures:
  assumes click: "click_checkbox env tr0 = (Inr (), tr1)"
    and unsolved: "is_solved env tr1 = (Inr False, tr2)"
    and audio: "click_audio_button env tr2 = (Inr frame, tr3)"
    and undetected: "is_detected env tr3 = (Inr False, tr4)"
    and body: "audio_challenge env frame tr4 = (r, tr5)"
  shows "solveCaptcha env tr0 =
      ((case r of
          Inl e \<Rightarrow> Inl (Exn PlainException (''Audio challenge failed: '' @ str e))
        | Inr u \<Rightarrow> Inr u), tr5)
    \<and> (\<forall>e. elem_result env (tr4 @ [wait_audio_source frame]) = Inl e \<longrightarrow> r = Inl e)
    \<and> (elem_result env (tr4 @ [wait_audio_source frame]) = Inr None \<longrightarrow>
          r = Inl (Exn PlainException ''Cannot find audio source element''))
    \<and> (\<forall>ae. elem_result env (tr4 @ [wait_audio_source frame]) = Inr (Some ae) \<longrightarrow>
          (\<forall>e. attr_result env (tr4 @ [wait_audio_source frame, read_src ae]) = Inl e \<longrightarrow>
             r = Inl e)
        \<and> (attr_result env (tr4 @ [wait_audio_source frame, read_src ae])
              \<in> {Inr None, Inr (Some '''')} \<longrightarrow>
             r = Inl (Exn PlainException ''Audio source URL not found''))
        \<and> (\<forall>url. attr_result env (tr4 @ [wait_audio_source frame, read_src ae]) = Inr (Some url)
                \<and> url \<noteq> '''' \<longrightarrow>
             (\<forall>e t. process_audio_challenge env url (tr4 @ [wait_audio_source frame, read_src ae])
                      = (Inl e, t) \<longrightarrow> r = Inl e)
           \<and> (\<forall>heard t.
                 process_audio_challenge env url (tr4 @ [wait_audio_source frame, read_src ae])
                   = (Inr heard, t) \<longrightarrow>
                 (\<forall>e. unit_result env (t @ [fill_response frame (lower heard)]) = Inl e \<longrightarrow>
                    r = Inl e)
               \<and> (unit_result env (t @ [fill_response frame (lower heard)]) = Inr () \<longrightarrow>
                    (\<forall>e. unit_result env
                            (t @ [fill_response frame (lower heard), click_verify frame]) = Inl e
                       \<longrightarrow> r = Inl e)
                  \<and> (unit_result env
                        (t @ [fill_response frame (lower heard), click_verify frame]) = Inr () \<longrightarrow>
                       (\<forall>e. unit_result env
                               (t @ [fill_response frame (lower heard), click_verify frame,
                                     PageWaitForTimeout 400]) = Inl e
                          \<longrightarrow> r = Inl e)
                     \<and> (unit_result env
                           (t @ [fill_response frame (lower heard), click_verify frame,
                                 PageWaitForTimeout 400]) = Inr ()
                         \<and> fst (is_solved env
                               (t @ [fill_response frame (lower heard), click_verify frame,
                                     PageWaitForTimeout 400])) = Inr False
                          \<longrightarrow> r = Inl (Exn PlainException ''Failed to solve the captcha'')))))))"
proof -
  have wrap: "solveCaptcha env tr0 =
      ((case r of
          Inl e \<Rightarrow> Inl (Exn PlainException (''Audio challenge failed: '' @ str e))
        | Inr u \<Rightarrow> Inr u), tr5)"
    unfolding solveCaptcha_audio_phase [OF click unsolved audio undetected]
    using body by (simp add: try_except_def is_Exception_def raise_def split: sum.splits)
  have early: "(\<forall>e. elem_result env (tr4 @ [wait_audio_source frame]) = Inl e \<longrightarrow> r = Inl e)
    \<and> (elem_result env (tr4 @ [wait_audio_source frame]) = Inr None \<longrightarrow>
          r = Inl (Exn PlainException ''Cannot find audio source element''))"
    using body by (auto simp: audio_challenge_def seq_def ask_elem_def raise_def)
  have src: "\<And>ae. elem_result env (tr4 @ [wait_audio_source frame]) = Inr (Some ae) \<Longrightarrow>
          (\<forall>e. attr_result env (tr4 @ [wait_audio_source frame, read_src ae]) = Inl e \<longrightarrow>
             r = Inl e)
        \<and> (attr_result env (tr4 @ [wait_audio_source frame, read_src ae])
              \<in> {Inr None, Inr (Some '''')} \<longrightarrow>
             r = Inl (Exn PlainException ''Audio source URL not found''))"
    using body by (auto simp: audio_challenge_def seq_def ask_elem_def ask_attr_def raise_def)
  have heard_fail: "\<And>ae url e t.
      elem_result env (tr4 @ [wait_audio_source frame]) = Inr (Some ae) \<Longrightarrow>
      attr_result env (tr4 @ [wait_audio_source frame, read_src ae]) = Inr (Some url) \<Longrightarrow>
      url \<noteq> '''' \<Longrightarrow>
      process_audio_challenge env url (tr4 @ [wait_audio_source frame, read_src ae]) = (Inl e, t)
      \<Longrightarrow> r = Inl e"
    using body by (simp add: audio_challenge_def seq_def ask_elem_def ask_attr_def)
  have submit: "\<And>ae url heard t.
      elem_result env (tr4 @ [wait_audio_source frame]) = Inr (Some ae) \<Longrightarrow>
      attr_result env (tr4 @ [wait_audio_source frame, read_src ae]) = Inr (Some url) \<Longrightarrow>
      url \<noteq> '''' \<Longrightarrow>
      process_audio_challenge env url (tr4 @ [wait_audio_source frame, read_src ae]) = (Inr heard, t)
      \<Longrightarrow>
        (\<forall>e. unit_result env (t @ [fill_response frame (lower heard)]) = Inl e \<longrightarrow> r = Inl e)
      \<and> (unit_result env (t @ [fill_response frame (lower heard)]) = Inr () \<longrightarrow>
           (\<forall>e. unit_result env (t @ [fill_response frame (lower heard), click_verify frame]) = Inl e
              \<longrightarrow> r = Inl e)
         \<and> (unit_result env (t @ [fill_response frame (lower heard), click_verify frame]) = Inr ()
              \<longrightarrow>
              (\<forall>e. unit_result env
                      (t @ [fill_response frame (lower heard), click_verify frame,
                            PageWaitForTimeout 400]) = Inl e
                 \<longrightarrow> r = Inl e)
            \<and> (unit_result env
                  (t @ [fill_response frame (lower heard), click_verify frame,
                        PageWaitForTimeout 400]) = Inr ()
                \<and> fst (is_solved env
                      (t @ [fill_response frame (lower heard), click_verify frame,
                            PageWaitForTimeout 400])) = Inr False
                 \<longrightarrow> r = Inl (Exn PlainException ''Failed to solve the captcha''))))"
  proof -
    fix ae url heard t
    assume "elem_result env (tr4 @ [wait_audio_source frame]) = Inr (Some ae)"
      and "attr_result env (tr4 @ [wait_audio_source frame, read_src ae]) = Inr (Some url)"
      and "url \<noteq> ''''"
      and "process_audio_challenge env url (tr4 @ [wait_audio_source frame, read_src ae])
            = (Inr heard, t)"
    from body [unfolded audio_challenge_after_transcription [OF this]]
    show "(\<forall>e. unit_result env (t @ [fill_response frame (lower heard)]) = Inl e \<longrightarrow> r = Inl e)
      \<and> (unit_result env (t @ [fill_response frame (lower heard)]) = Inr () \<longrightarrow>
           (\<forall>e. unit_result env (t @ [fill_response frame (lower heard), click_verify frame]) = Inl e
              \<longrightarrow> r = Inl e)
         \<and> (unit_result env (t @ [fill_response frame (lower heard), click_verify frame]) = Inr ()
              \<longrightarrow>
              (\<forall>e. unit_result env
                      (t @ [fill_response frame (lower heard), click_verify frame,
                            PageWaitForTimeout 400]) = Inl e
                 \<longrightarrow> r = Inl e)
            \<and> (unit_result env
                  (t @ [fill_response frame (lower heard), click_verify frame,
                        PageWaitForTimeout 400]) = Inr ()
                \<and> fst (is_solved env
                      (t @ [fill_response frame (lower heard), click_verify frame,
                            PageWaitForTimeout 400])) = Inr False
                 \<longrightarrow> r = Inl (Exn PlainException ''Failed to solve the captcha''))))"
      by (auto simp: seq_def ask_unit_def raise_def ret_def split: prod.splits sum.splits)
  qed
  from wrap early src heard_fail submit show ?thesis
    by blast
qed

theorem solveCaptcha_wraps_audio_failures_witness:
  "click_checkbox page_no_recognition [] = (Inr (), calls_checkbox)
   \<and> is_solved page_no_recognition calls_checkbox =
       (Inr False, calls_checkbox @ calls_solved_check)
   \<and> click_audio_button page_no_recognition (calls_checkbox @ calls_solved_check) =
       (Inr 2, calls_checkbox @ calls_solved_check @ calls_audio_button)
   \<and> is_detected page_no_recognition (calls_checkbox @ calls_solved_check @ calls_audio_button) =
       (Inr False, calls_checkbox @ calls_solved_check @ calls_audio_button @ calls_detection)
   \<and> audio_challenge page_no_recognition 2
        (calls_checkbox @ calls_solved_check @ calls_audio_button @ calls_detection) =
       (Inl (Exn OtherException ''recognition request failed''),
        calls_checkbox @ calls_solved_check @ calls_audio_button @ calls_detection
          @ calls_audio_source @ calls_transcription)
   \<and> solveCaptcha page_no_recognition [] =
       (Inl (Exn PlainException ''Audio challenge failed: recognition request failed''),
        calls_checkbox @ calls_solved_check @ calls_audio_button @ calls_detection
          @ calls_audio_source @ calls_transcription)"
proof -
  have click: "click_checkbox page_no_recognition [] = (Inr (), calls_checkbox)"
    by (simp add: click_checkbox_def run_defs)
  have unsolved: "is_solved page_no_recognition calls_checkbox =
       (Inr False, calls_checkbox @ calls_solved_check)"
    by (simp add: is_solved_def run_defs)
  have audio: "click_audio_button page_no_recognition (calls_checkbox @ calls_solved_check) =
       (Inr 2, calls_checkbox @ calls_solved_check @ calls_audio_button)"
    by (simp add: click_audio_button_def run_defs)
  have undetected:
    "is_detected page_no_recognition (calls_checkbox @ calls_solved_check @ calls_audio_button) =
       (Inr False, calls_checkbox @ calls_solved_check @ calls_audio_button @ calls_detection)"
    by (simp add: is_detected_def run_defs)
  have body: "audio_challenge page_no_recognition 2
        (calls_checkbox @ calls_solved_check @ calls_audio_button @ calls_detection) =
       (Inl (Exn OtherException ''recognition request failed''),
        calls_checkbox @ calls_solved_check @ calls_audio_button @ calls_detection
          @ calls_audio_source @ calls_transcription)"
    by (simp add: audio_challenge_def process_audio_challenge_def transcribe_def run_defs Let_def)
  from solveCaptcha_wraps_audio_failures [OF click unsolved audio undetected body]
  have "solveCaptcha page_no_recognition [] =
       (Inl (Exn PlainException ''Audio challenge failed: recognition request failed''),
        calls_checkbox @ calls_solved_check @ calls_audio_button @ calls_detection
          @ calls_audio_source @ calls_transcription)"
    by simp
  with click unsolved audio undetected body show ?thesis
    by blast
qed

text \<open>The steps after the transcription, and what they append to the trace.\<close>

lemma is_solved_returns: "\<exists>solved tr'. is_solved env tr = (Inr solved, tr')"
  unfolding is_solved_def prog_defs
  by (auto split: sum.splits option.splits prod.splits)

lemma snd_try_except_raise: "snd (try_except c m (\<lambda>e. raise (f e)) tr) = snd (m tr)"
  by (simp add: try_except_def raise_def split: prod.splits sum.splits)

lemma seq_ask_unit_trace:
  assumes "\<And>u. emits (\<lambda>a. True) (k u)"
  shows "\<exists>rest. snd (seq (ask_unit env a) k t) = t @ a # rest"
proof (cases "unit_result env (t @ [a])")
  case (Inl e)
  then show ?thesis by (simp add: seq_def ask_unit_def)
next
  case (Inr u)
  from assms [of u] obtain new where "snd (k u (t @ [a])) = (t @ [a]) @ new"
    unfolding emits_def by blast
  with Inr show ?thesis by (simp add: seq_def ask_unit_def)
qed

lemma emits_anything_is_solved: "emits (\<lambda>a. True) (is_solved env)"
  by (rule emits_is_solved) simp_all

text \<open>
  What \<open>lower\<close> does to a text, code point by code point: the length stays, a code
  point from 65 to 90 (\<^verbatim>\<open>A\<close> to \<^verbatim>\<open>Z\<close>) or from 192 to 222 other than 215 goes up by
  32, and every other code point stays.
\<close>

lemma of_char_int_code: "(of_char c :: int) = int (of_char c)"
  by (simp add: of_nat_of_char)

lemma lower_char_code:
  "(of_char (lower_char c) :: nat) =
    (if (65 \<le> (of_char c :: nat) \<and> (of_char c :: nat) \<le> 90)
        \<or> (192 \<le> (of_char c :: nat) \<and> (of_char c :: nat) \<le> 222 \<and> (of_char c :: nat) \<noteq> 215)
     then of_char c + 32 else of_char c)"
proof -
  let ?n = "of_char c :: nat"
  have up: "(of_char (char_of (int ?n + 32) :: char) :: nat) = ?n + 32" if "?n \<le> 222"
  proof -
    have "int ?n + 32 = int (?n + 32)" by simp
    then have "(char_of (int ?n + 32) :: char) = char_of (?n + 32)"
      by (simp only: char_of_nat)
    with that show ?thesis by (simp add: of_char_of)
  qed
  show ?thesis
    unfolding lower_char_def Let_def of_char_int_code using up by auto
qed

lemma lower_codes:
  "length (lower s) = length s
   \<and> (\<forall>i < length s.
        (of_char (lower s ! i) :: nat) =
          (if (65 \<le> (of_char (s ! i) :: nat) \<and> (of_char (s ! i) :: nat) \<le> 90)
              \<or> (192 \<le> (of_char (s ! i) :: nat) \<and> (of_char (s ! i) :: nat) \<le> 222
                  \<and> (of_char (s ! i) :: nat) \<noteq> 215)
           then of_char (s ! i) + 32 else of_char (s ! i)))"
  by (simp add: lower_def lower_char_code)

text \<open>
  Claim C5. When the transcription step returns a text, the next call of \<open>solveCaptcha\<close>
  fills the response field with the lower-cased text: the filled value has the length of
  the text, and at every position its code point is that of the text, moved up by 32
  when it is an upper-case letter (65 to 90, which is \<^verbatim>\<open>A\<close> to \<^verbatim>\<open>Z\<close>, or 192 to 222
  other than 215, the upper-case letters of Latin-1) and unchanged otherwise. So
  \<^verbatim>\<open>fireball\<close> is filled in as \<^verbatim>\<open>fireball\<close>, and \<^verbatim>\<open>FireBall\<close> as \<^verbatim>\<open>fireball\<close> too. If
  the fill succeeds the call after it is the click on the verify button; and if the click
  and the pause of 400 ms succeed, \<open>is_solved\<close> is called on the trace that ends with
  fill, click and pause, and its verdict decides the outcome.
\<close>

theorem solveCaptcha_submits_lowercase:
  assumes click: "click_checkbox env tr0 = (Inr (), tr1)"
    and unsolved: "is_solved env tr1 = (Inr False, tr2)"
    and audio: "click_audio_button env tr2 = (Inr frame, tr3)"
    and undetected: "is_detected env tr3 = (Inr False, tr4)"
    and found: "elem_result env (tr4 @ [wait_audio_source frame]) = Inr (Some ae)"
    and src: "attr_result env (tr4 @ [wait_audio_source frame, read_src ae]) = Inr (Some url)"
    and nonempty: "url \<noteq> ''''"
    and heard: "process_audio_challenge env url (tr4 @ [wait_audio_source frame, read_src ae])
        = (Inr text_response, tr5)"
  shows "\<exists>filled.
      length filled = length text_response
    \<and> (\<forall>i < length text_response.
          (of_char (filled ! i) :: nat) =
            (if (65 \<le> (of_char (text_response ! i) :: nat)
                  \<and> (of_char (text_response ! i) :: nat) \<le> 90)
                \<or> (192 \<le> (of_char (text_response ! i) :: nat)
                  \<and> (of_char (text_response ! i) :: nat) \<le> 222
                  \<and> (of_char (text_response ! i) :: nat) \<noteq> 215)
             then of_char (text_response ! i) + 32 else of_char (text_response ! i)))
    \<and> (text_response = ''fireball'' \<longrightarrow> filled = ''fireball'')
    \<and> (text_response = ''FireBall'' \<longrightarrow> filled = ''fireball'')
    \<and> (\<exists>rest. snd (solveCaptcha env tr0) = tr5 @ fill_response frame filled # rest)
    \<and> (unit_result env (tr5 @ [fill_response frame filled]) = Inr () \<longrightarrow>
         (\<exists>rest. snd (solveCaptcha env tr0) =
            tr5 @ fill_response frame filled # click_verify frame # rest))
    \<and> (unit_result env (tr5 @ [fill_response frame filled]) = Inr ()
         \<and> unit_result env (tr5 @ [fill_response frame filled, click_verify frame]) = Inr ()
         \<and> unit_result env
             (tr5 @ [fill_response frame filled, click_verify frame, PageWaitForTimeout 400])
             = Inr ()
        \<longrightarrow> (\<exists>solved tr6.
              is_solved env
                (tr5 @ [fill_response frame filled, click_verify frame, PageWaitForTimeout 400])
                = (Inr solved, tr6)
            \<and> solveCaptcha env tr0 =
                (if solved then Inr ()
                 else Inl (Exn PlainException
                            ''Audio challenge failed: Failed to solve the captcha''), tr6)))"
proof -
  let ?fill = "fill_response frame (lower text_response)"
  let ?verdict = "\<lambda>solved. if \<not> solved then raise (Exn PlainException ''Failed to solve the captcha'')
         else ret ()"
  let ?check = "\<lambda>u::unit. seq (is_solved env) ?verdict"
  let ?pause = "\<lambda>u::unit. seq (ask_unit env (PageWaitForTimeout 400)) ?check"
  let ?verify = "\<lambda>u::unit. seq (ask_unit env (click_verify frame)) ?pause"
  have run: "solveCaptcha env tr0 =
      try_except is_Exception (seq (ask_unit env ?fill) ?verify)
        (\<lambda>e. raise (Exn PlainException (''Audio challenge failed: '' @ str e))) tr5"
    unfolding solveCaptcha_audio_phase [OF click unsolved audio undetected]
    by (simp add: try_except_def audio_challenge_after_transcription [OF found src nonempty heard])
  have check: "\<And>u. emits (\<lambda>a. True) (?check u)"
    by (intro emits_intros emits_anything_is_solved)
  have pause: "\<And>u. emits (\<lambda>a. True) (?pause u)"
    by (intro emits_intros emits_anything_is_solved) simp
  have verify: "\<And>u. emits (\<lambda>a. True) (?verify u)"
    by (intro emits_intros emits_anything_is_solved) simp_all
  have first: "\<exists>rest. snd (solveCaptcha env tr0) = tr5 @ ?fill # rest"
    unfolding run snd_try_except_raise by (rule seq_ask_unit_trace [OF verify])
  have second: "\<exists>rest. snd (solveCaptcha env tr0) = tr5 @ ?fill # click_verify frame # rest"
    if "unit_result env (tr5 @ [?fill]) = Inr ()"
  proof -
    from that have "snd (solveCaptcha env tr0) =
        snd (seq (ask_unit env (click_verify frame)) ?pause (tr5 @ [?fill]))"
      unfolding run snd_try_except_raise by (simp add: seq_def ask_unit_def)
    with seq_ask_unit_trace [OF pause, of env "click_verify frame" "tr5 @ [?fill]"]
    show ?thesis by simp
  qed
  have third: "\<exists>solved tr6.
        is_solved env (tr5 @ [?fill, click_verify frame, PageWaitForTimeout 400]) = (Inr solved, tr6)
      \<and> solveCaptcha env tr0 =
          (if solved then Inr ()
           else Inl (Exn PlainException ''Audio challenge failed: Failed to solve the captcha''),
           tr6)"
    if "unit_result env (tr5 @ [?fill]) = Inr ()"
      and "unit_result env (tr5 @ [?fill, click_verify frame]) = Inr ()"
      and "unit_result env (tr5 @ [?fill, click_verify frame, PageWaitForTimeout 400]) = Inr ()"
  proof -
    from is_solved_returns obtain solved tr6 where
      solved: "is_solved env (tr5 @ [?fill, click_verify frame, PageWaitForTimeout 400])
        = (Inr solved, tr6)"
      by blast
    with that have "solveCaptcha env tr0 =
          (if solved then Inr ()
           else Inl (Exn PlainException ''Audio challenge failed: Failed to solve the captcha''),
           tr6)"
      unfolding run
      by (simp add: try_except_def seq_def ask_unit_def raise_def ret_def is_Exception_def)
    with solved show ?thesis by blast
  qed
  have plain: "text_response = ''fireball'' \<longrightarrow> lower text_response = ''fireball''"
    by (auto simp: lower_def lower_char_def)
  have mixed: "text_response = ''FireBall'' \<longrightarrow> lower text_response = ''fireball''"
    by (auto simp: lower_def lower_char_def char_of_def)
  from lower_codes [of text_response] plain mixed first second third
  have "length (lower text_response) = length text_response
    \<and> (\<forall>i < length text_response.
          (of_char (lower text_response ! i) :: nat) =
            (if (65 \<le> (of_char (text_response ! i) :: nat)
                  \<and> (of_char (text_response ! i) :: nat) \<le> 90)
                \<or> (192 \<le> (of_char (text_response ! i) :: nat)
                  \<and> (of_char (text_response ! i) :: nat) \<le> 222
                  \<and> (of_char (text_response ! i) :: nat) \<noteq> 215)
             then of_char (text_response ! i) + 32 else of_char (text_response ! i)))
    \<and> (text_response = ''fireball'' \<longrightarrow> lower text_response = ''fireball'')
    \<and> (text_response = ''FireBall'' \<longrightarrow> lower text_response = ''fireball'')
    \<and> (\<exists>rest. snd (solveCaptcha env tr0) = tr5 @ ?fill # rest)
    \<and> (unit_result env (tr5 @ [?fill]) = Inr () \<longrightarrow>
         (\<exists>rest. snd (solveCaptcha env tr0) = tr5 @ ?fill # click_verify frame # rest))
    \<and> (unit_result env (tr5 @ [?fill]) = Inr ()
         \<and> unit_result env (tr5 @ [?fill, click_verify frame]) = Inr ()
         \<and> unit_result env (tr5 @ [?fill, click_verify frame, PageWaitForTimeout 400]) = Inr ()
        \<longrightarrow> (\<exists>solved tr6.
              is_solved env (tr5 @ [?fill, click_verify frame, PageWaitForTimeout 400])
                = (Inr solved, tr6)
            \<and> solveCaptcha env tr0 =
                (if solved then Inr ()
                 else Inl (Exn PlainException
                            ''Audio challenge failed: Failed to solve the captcha''), tr6)))"
    by blast
  then show ?thesis
    by (rule exI [of _ "lower text_response"])
qed

theorem solveCaptcha_submits_lowercase_witness:
  "click_checkbox page_audio [] = (Inr (), calls_checkbox)
   \<and> is_solved page_audio calls_checkbox = (Inr False, calls_checkbox @ calls_solved_check)
   \<and> click_audio_button page_audio (calls_checkbox @ calls_solved_check) =
       (Inr 2, calls_checkbox @ calls_solved_check @ calls_audio_button)
   \<and> is_detected page_audio (calls_checkbox @ calls_solved_check @ calls_audio_button) =
       (Inr False, calls_checkbox @ calls_solved_check @ calls_audio_button @ calls_detection)
   \<and> process_audio_challenge page_audio ''https://audio.test/clip.mp3''
        (calls_checkbox @ calls_solved_check @ calls_audio_button @ calls_detection
           @ calls_audio_source) =
       (Inr ''FireBall'',
        calls_checkbox @ calls_solved_check @ calls_audio_button @ calls_detection
          @ calls_audio_source @ calls_transcription)
   \<and> solveCaptcha page_audio [] =
       (Inr (),
        calls_checkbox @ calls_solved_check @ calls_audio_button @ calls_detection
          @ calls_audio_source @ calls_transcription
          @ [fill_response 2 ''fireball'', click_verify 2, PageWaitForTimeout 400]
          @ calls_solved_check)"
proof -
  let ?pre = "calls_checkbox @ calls_solved_check @ calls_audio_button @ calls_detection"
  let ?heard = "?pre @ calls_audio_source @ calls_transcription"
  have click: "click_checkbox page_audio [] = (Inr (), calls_checkbox)"
    by (simp add: click_checkbox_def run_defs)
  have unsolved: "is_solved page_audio calls_checkbox =
       (Inr False, calls_checkbox @ calls_solved_check)"
    by (simp add: is_solved_def run_defs)
  have audio: "click_audio_button page_audio (calls_checkbox @ calls_solved_check) =
       (Inr 2, calls_checkbox @ calls_solved_check @ calls_audio_button)"
    by (simp add: click_audio_button_def run_defs)
  have undetected:
    "is_detected page_audio (calls_checkbox @ calls_solved_check @ calls_audio_button) =
       (Inr False, ?pre)"
    by (simp add: is_detected_def run_defs)
  have found: "elem_result page_audio (?pre @ [wait_audio_source 2]) = Inr (Some 1)"
    by (simp add: page_defs)
  have src: "attr_result page_audio (?pre @ [wait_audio_source 2, read_src 1])
      = Inr (Some ''https://audio.test/clip.mp3'')"
    by (simp add: page_defs calls_defs audio_attrs_def)
  have nonempty: "''https://audio.test/clip.mp3'' \<noteq> ''''"
    by simp
  have heard: "process_audio_challenge page_audio ''https://audio.test/clip.mp3''
        (?pre @ [wait_audio_source 2, read_src 1]) = (Inr ''FireBall'', ?heard)"
    by (simp add: process_audio_challenge_def transcribe_def run_defs Let_def)
  have units: "unit_result page_audio (?heard @ [fill_response 2 ''fireball'']) = Inr ()
     \<and> unit_result page_audio (?heard @ [fill_response 2 ''fireball'', click_verify 2]) = Inr ()
     \<and> unit_result page_audio
         (?heard @ [fill_response 2 ''fireball'', click_verify 2, PageWaitForTimeout 400])
         = Inr ()"
    by (simp add: page_defs)
  have solved: "is_solved page_audio
        (?heard @ [fill_response 2 ''fireball'', click_verify 2, PageWaitForTimeout 400])
      = (Inr True,
         ?heard @ [fill_response 2 ''fireball'', click_verify 2, PageWaitForTimeout 400]
           @ calls_solved_check)"
    by (simp add: is_solved_def run_defs)
  from solveCaptcha_submits_lowercase
    [OF click unsolved audio undetected found src nonempty heard]
  obtain filled where
    filled: "''FireBall'' = ''FireBall'' \<longrightarrow> filled = ''fireball''"
    and verdict: "unit_result page_audio (?heard @ [fill_response 2 filled]) = Inr ()
         \<and> unit_result page_audio (?heard @ [fill_response 2 filled, click_verify 2]) = Inr ()
         \<and> unit_result page_audio
             (?heard @ [fill_response 2 filled, click_verify 2, PageWaitForTimeout 400]) = Inr ()
        \<longrightarrow> (\<exists>solved tr6.
              is_solved page_audio
                (?heard @ [fill_response 2 filled, click_verify 2, PageWaitForTimeout 400])
                = (Inr solved, tr6)
            \<and> solveCaptcha page_audio [] =
                (if solved then Inr ()
                 else Inl (Exn PlainException
                            ''Audio challenge failed: Failed to solve the captcha''), tr6))"
    by blast
  from filled have "filled = ''fireball''"
    by simp
  with verdict units obtain answer tr6 where
    "is_solved page_audio
        (?heard @ [fill_response 2 ''fireball'', click_verify 2, PageWaitForTimeout 400])
      = (Inr answer, tr6)"
    and "solveCaptcha page_audio [] =
      (if answer then Inr ()
       else Inl (Exn PlainException ''Audio challenge failed: Failed to solve the captcha''), tr6)"
    by blast
  with solved have "solveCaptcha page_audio [] =
       (Inr (),
        ?heard @ [fill_response 2 ''fireball'', click_verify 2, PageWaitForTimeout 400]
          @ calls_solved_check)"
    by simp
  with click unsolved audio undetected heard show ?thesis
    by (simp add: calls_audio_source_def)
qed

end
